theory Spec2Isabelle
  imports Complex_Main "HOL-Library.AList" "HOL-Library.Sublist"
begin

section \<open>Python values\<close>

text \<open>
  The token helper of \<^verbatim>\<open>zign/api.py\<close> handles plain data as it comes out of YAML and
  JSON documents: \<^verbatim>\<open>None\<close>, booleans, numbers, strings, lists and dictionaries with
  string keys. A dictionary is an association list, in insertion order. An \<^verbatim>\<open>int\<close> is an
  unbounded integer; a \<^verbatim>\<open>float\<close> is a binary64 value: a finite one, given by the real number
  it stands for, an infinity or a NaN.
\<close>

datatype pyfloat = Finite real | PosInf | NegInf | NaN

datatype pyval =
    PNone
  | PBool bool
  | PInt int
  | PFloat pyfloat
  | PStr string
  | PList "pyval list"
  | PDict "(string \<times> pyval) list"

type_synonym dict = "(string \<times> pyval) list"

text \<open>Python's truth value of an object, as \<^verbatim>\<open>if x\<close>, \<^verbatim>\<open>not x\<close>, \<^verbatim>\<open>and\<close>, \<^verbatim>\<open>or\<close> use it.\<close>

fun truthy :: "pyval \<Rightarrow> bool" where
  "truthy PNone = False"
| "truthy (PBool b) = b"
| "truthy (PInt i) = (i \<noteq> 0)"
| "truthy (PFloat f) = (f \<noteq> Finite 0)"
| "truthy (PStr s) = (s \<noteq> [])"
| "truthy (PList xs) = (xs \<noteq> [])"
| "truthy (PDict d) = (d \<noteq> [])"

text \<open>\<^verbatim>\<open>d.get(k, default)\<close> and \<^verbatim>\<open>d.get(k)\<close>, whose default is \<^verbatim>\<open>None\<close>.\<close>

definition dict_get_default :: "dict \<Rightarrow> string \<Rightarrow> pyval \<Rightarrow> pyval" where
  "dict_get_default d k dflt = (case map_of d k of None \<Rightarrow> dflt | Some v \<Rightarrow> v)"

definition dict_get :: "dict \<Rightarrow> string \<Rightarrow> pyval" where
  "dict_get d k = dict_get_default d k PNone"

text \<open>\<^verbatim>\<open>d[k] = v\<close>: an existing key keeps its place, a new key goes to the end.\<close>

definition dict_set :: "dict \<Rightarrow> string \<Rightarrow> pyval \<Rightarrow> dict" where
  "dict_set d k v = AList.update k v d"

subsection \<open>Numbers\<close>

text \<open>
  The operand of an arithmetic operation or of a comparison with a number: integers,
  floats and booleans (\<^verbatim>\<open>True\<close> is the integer 1) qualify, everything else makes Python
  raise \<^verbatim>\<open>TypeError\<close>.
\<close>

datatype pynum = NInt int | NFloat pyfloat

fun as_num :: "pyval \<Rightarrow> pynum option" where
  "as_num (PInt i) = Some (NInt i)"
| "as_num (PFloat f) = Some (NFloat f)"
| "as_num (PBool b) = Some (NInt (if b then 1 else 0))"
| "as_num _ = None"

text \<open>
  Arithmetic on floats rounds. The rounding \<^verbatim>\<open>rnd\<close> takes the exact result of an operation
  on finite floats to the float that stands for it, which is an infinity when the result is
  too large. The infinities and NaN follow IEEE 754.
\<close>

fun float_add :: "(real \<Rightarrow> pyfloat) \<Rightarrow> pyfloat \<Rightarrow> pyfloat \<Rightarrow> pyfloat" where
  "float_add rnd (Finite a) (Finite b) = rnd (a + b)"
| "float_add rnd NaN g = NaN"
| "float_add rnd f NaN = NaN"
| "float_add rnd PosInf NegInf = NaN"
| "float_add rnd NegInf PosInf = NaN"
| "float_add rnd PosInf g = PosInf"
| "float_add rnd NegInf g = NegInf"
| "float_add rnd f PosInf = PosInf"
| "float_add rnd f NegInf = NegInf"

fun float_neg :: "pyfloat \<Rightarrow> pyfloat" where
  "float_neg (Finite a) = Finite (- a)"
| "float_neg PosInf = NegInf"
| "float_neg NegInf = PosInf"
| "float_neg NaN = NaN"

definition float_sub :: "(real \<Rightarrow> pyfloat) \<Rightarrow> pyfloat \<Rightarrow> pyfloat \<Rightarrow> pyfloat" where
  "float_sub rnd f g = float_add rnd f (float_neg g)"

text \<open>
  An integer that meets a float in an operation is converted to a float first, and the
  conversion raises \<^verbatim>\<open>OverflowError\<close> when the integer is too large for a finite float.
\<close>

datatype num_error = Overflow

definition int_to_float :: "(real \<Rightarrow> pyfloat) \<Rightarrow> int \<Rightarrow> num_error + pyfloat" where
  "int_to_float rnd i = (case rnd (of_int i) of Finite r \<Rightarrow> Inr (Finite r) | _ \<Rightarrow> Inl Overflow)"

fun num_add :: "(real \<Rightarrow> pyfloat) \<Rightarrow> pynum \<Rightarrow> pynum \<Rightarrow> num_error + pynum" where
  "num_add rnd (NInt a) (NInt b) = Inr (NInt (a + b))"
| "num_add rnd (NInt a) (NFloat g) =
     (case int_to_float rnd a of Inl e \<Rightarrow> Inl e | Inr f \<Rightarrow> Inr (NFloat (float_add rnd f g)))"
| "num_add rnd (NFloat f) (NInt b) =
     (case int_to_float rnd b of Inl e \<Rightarrow> Inl e | Inr g \<Rightarrow> Inr (NFloat (float_add rnd f g)))"
| "num_add rnd (NFloat f) (NFloat g) = Inr (NFloat (float_add rnd f g))"

fun num_sub :: "(real \<Rightarrow> pyfloat) \<Rightarrow> pynum \<Rightarrow> pynum \<Rightarrow> num_error + pynum" where
  "num_sub rnd (NInt a) (NInt b) = Inr (NInt (a - b))"
| "num_sub rnd (NInt a) (NFloat g) =
     (case int_to_float rnd a of Inl e \<Rightarrow> Inl e | Inr f \<Rightarrow> Inr (NFloat (float_sub rnd f g)))"
| "num_sub rnd (NFloat f) (NInt b) =
     (case int_to_float rnd b of Inl e \<Rightarrow> Inl e | Inr g \<Rightarrow> Inr (NFloat (float_sub rnd f g)))"
| "num_sub rnd (NFloat f) (NFloat g) = Inr (NFloat (float_sub rnd f g))"

text \<open>
  \<^verbatim>\<open>x < y\<close> for a finite float \<^verbatim>\<open>x\<close>: the comparison is exact, also with an integer, and
  false with NaN.
\<close>

fun real_less_num :: "real \<Rightarrow> pynum \<Rightarrow> bool" where
  "real_less_num x (NInt i) = (x < of_int i)"
| "real_less_num x (NFloat (Finite b)) = (x < b)"
| "real_less_num x (NFloat PosInf) = True"
| "real_less_num x (NFloat NegInf) = False"
| "real_less_num x (NFloat NaN) = False"

text \<open>The real number that a finite number stands for.\<close>

fun num_real :: "pynum \<Rightarrow> real option" where
  "num_real (NInt i) = Some (of_int i)"
| "num_real (NFloat (Finite r)) = Some r"
| "num_real (NFloat f) = None"

subsection \<open>Rounding to binary64\<close>

text \<open>
  Round to nearest, ties to even: the exact result is divided by the spacing of the
  floats around it, which is \<open>2\<close> to the power of its binary exponent minus 52 (and
  \<open>2\<close> to the \<open>- 1074\<close> among the subnormal numbers), rounded to an integer, and
  multiplied back. A result of magnitude \<open>2\<close> to the \<open>1024\<close> or more is an infinity.
\<close>

definition round_half_even :: "real \<Rightarrow> int" where
  "round_half_even y =
     (let f = \<lfloor>y\<rfloor>
      in if y - of_int f < 1 / 2 then f
         else if y - of_int f > 1 / 2 then f + 1
         else if even f then f else f + 1)"

definition double_quantum :: "real \<Rightarrow> real" where
  "double_quantum x = 2 powi (max \<lfloor>log 2 \<bar>x\<bar>\<rfloor> (- 1022) - 52)"

definition round_double :: "real \<Rightarrow> pyfloat" where
  "round_double x =
     (if x = 0 then Finite 0
      else (let r = of_int (round_half_even (x / double_quantum x)) * double_quantum x
            in if r \<ge> 2 ^ 1024 then PosInf
               else if r \<le> - (2 ^ 1024) then NegInf
               else Finite r))"

subsection \<open>Strings\<close>

text \<open>\<^verbatim>\<open>sep.join(xs)\<close> on strings.\<close>

fun str_join :: "string \<Rightarrow> string list \<Rightarrow> string" where
  "str_join sep [] = []"
| "str_join sep [x] = x"
| "str_join sep (x # y # ys) = x @ sep @ str_join sep (y # ys)"

text \<open>Decimal rendering of an integer, as \<^verbatim>\<open>'{}'.format(n)\<close> gives it.\<close>

fun str_nat :: "nat \<Rightarrow> string" where
  "str_nat n = (if n < 10 then [''0123456789'' ! n]
                else str_nat (n div 10) @ [''0123456789'' ! (n mod 10)])"

definition str_int :: "int \<Rightarrow> string" where
  "str_int i = (if i < 0 then CHR ''-'' # str_nat (nat (- i)) else str_nat (nat i))"

section \<open>Exceptions and results\<close>

text \<open>
  The three exception classes of the module, the two signals of the \<^verbatim>\<open>tokens\<close> library
  that \<^verbatim>\<open>get_service_token\<close> catches and one constructor for every other exception that
  leaves that library (a connection error of its own request, a response it cannot read),
  the built-in errors that operations on ill-typed data and on large numbers raise, and
  the failures of the HTTP transport and of the file system.
  \<^verbatim>\<open>AuthenticationFailed\<close> is a subclass of \<^verbatim>\<open>ServerError\<close>; nothing in the module catches
  \<^verbatim>\<open>ServerError\<close>, so the two are separate constructors.
\<close>

datatype exn =
    ServerError string
  | AuthenticationFailed string
  | ConfigurationError string
  | TokensConfigurationError
  | TokensInvalidCredentialsError
  | OtherTokensError
  | AttributeError
  | TypeError
  | KeyError
  | OverflowError
  | TransportError
  | OSError

text \<open>
  A call returns a value, raises, or never returns because the environment has nothing
  more to say (a prompt nobody answers, a request nobody replies to).
\<close>

datatype 'a res = Ret 'a | Raise exn | Blocked

section \<open>The environment\<close>

datatype file_state =
    Unreadable
  | Unparseable
  | Content pyval

datatype http_reply =
    Response int string "pyval option"
  | TransportFailure

datatype prompt_kind = UrlPrompt | PasswordPrompt pyval

text \<open>
  Modelled from the spec: the \<^verbatim>\<open>tokens\<close> library is not part of the sources. Its
  \<^verbatim>\<open>get(name)\<close> returns an access token or raises: one of the two signals of the
  interface, configuration missing or credentials unreadable, or any other exception.
\<close>

datatype service_outcome =
    ServiceToken pyval
  | ServiceConfigurationMissing
  | ServiceCredentialsUnreadable
  | ServiceOtherFailure

datatype event =
    EvReadTokens
  | EvMakedirs
  | EvWriteTokens pyval
  | EvLoadConfig
  | EvStoreConfig dict
  | EvGetEnv string
  | EvKeyringGet pyval
  | EvKeyringSet pyval pyval
  | EvPrompt prompt_kind
  | EvError string
  | EvInfo string
  | EvHttpGet pyval dict "(pyval \<times> pyval) option" bool "real option"
  | EvManage string "string list"
  | EvServiceGet string

text \<open>
  Everything outside the module that its functions read or change. The replies of the
  HTTP transport and the answers typed at the prompts are scripts, consumed in order;
  \<^verbatim>\<open>trace\<close> records every call to a collaborator, oldest first. \<^verbatim>\<open>tokens_dir\<close> is the
  directory part of \<^verbatim>\<open>TOKENS_FILE_PATH\<close>, a constant of the configuration module, and
  \<^verbatim>\<open>tokens_writable\<close> tells whether the token file can be opened for writing. The clock
  gives finite floats, and \<^verbatim>\<open>float_round\<close> is the rounding of the machine's float
  arithmetic; nothing is assumed of it, and \<open>round_double\<close> is the one of binary64.
\<close>

record world =
  clock :: "nat \<Rightarrow> real"
  ticks :: nat
  float_round :: "real \<Rightarrow> pyfloat"
  tokens_file :: file_state
  tokens_dir :: string
  tokens_writable :: bool
  config_store :: dict
  environ :: "string \<Rightarrow> string option"
  keyring_db :: "pyval \<Rightarrow> pyval"
  service_manage_fails :: "string \<Rightarrow> bool"
  service_tokens :: "string \<Rightarrow> service_outcome"
  http_replies :: "http_reply list"
  prompt_answers :: "string list"
  trace :: "event list"

definition emit :: "event \<Rightarrow> world \<Rightarrow> world" where
  "emit e w = w\<lparr>trace := trace w @ [e]\<rparr>"

text \<open>\<^verbatim>\<open>time.time()\<close>: the n-th reading of the clock.\<close>

definition time_time :: "world \<Rightarrow> real \<times> world" where
  "time_time w = (clock w (ticks w), w\<lparr>ticks := Suc (ticks w)\<rparr>)"

text \<open>\<^verbatim>\<open>stups_cli.config.load_config('zign')\<close> and \<^verbatim>\<open>store_config(config, 'zign')\<close>.\<close>

definition get_config :: "world \<Rightarrow> dict \<times> world" where
  "get_config w = (config_store w, emit EvLoadConfig w)"

definition store_config :: "dict \<Rightarrow> world \<Rightarrow> world" where
  "store_config config w = emit (EvStoreConfig config) (w\<lparr>config_store := config\<rparr>)"

definition os_getenv :: "string \<Rightarrow> world \<Rightarrow> pyval \<times> world" where
  "os_getenv k w =
     ((case environ w k of None \<Rightarrow> PNone | Some s \<Rightarrow> PStr s), emit (EvGetEnv k) w)"

text \<open>The keyring under the module's fixed service key \<^verbatim>\<open>KEYRING_KEY\<close>.\<close>

definition keyring_get_password :: "pyval \<Rightarrow> world \<Rightarrow> pyval \<times> world" where
  "keyring_get_password user w = (keyring_db w user, emit (EvKeyringGet user) w)"

definition keyring_set_password :: "pyval \<Rightarrow> pyval \<Rightarrow> world \<Rightarrow> world" where
  "keyring_set_password user password w =
     emit (EvKeyringSet user password) (w\<lparr>keyring_db := (keyring_db w)(user := password)\<rparr>)"

text \<open>\<^verbatim>\<open>click.prompt\<close>: the next answer of the script; none left means waiting forever.\<close>

definition click_prompt :: "prompt_kind \<Rightarrow> world \<Rightarrow> string option \<times> world" where
  "click_prompt k w =
     (case prompt_answers w of
        [] \<Rightarrow> (None, emit (EvPrompt k) w)
      | a # as \<Rightarrow> (Some a, emit (EvPrompt k) (w\<lparr>prompt_answers := as\<rparr>)))"

text \<open>
  \<^verbatim>\<open>requests.get(url, params=..., auth=..., verify=..., timeout=...)\<close>: the next reply of
  the script, which is a response or an exception of the transport.
\<close>

definition requests_get ::
  "pyval \<Rightarrow> dict \<Rightarrow> (pyval \<times> pyval) option \<Rightarrow> bool \<Rightarrow> real option \<Rightarrow> world
     \<Rightarrow> http_reply option \<times> world" where
  "requests_get url params auth verify timeout w =
     (case http_replies w of
        [] \<Rightarrow> (None, emit (EvHttpGet url params auth verify timeout) w)
      | r # rs \<Rightarrow> (Some r, emit (EvHttpGet url params auth verify timeout) (w\<lparr>http_replies := rs\<rparr>)))"

text \<open>
  \<^verbatim>\<open>tokens.manage(name, scopes)\<close> and \<^verbatim>\<open>tokens.get(name)\<close>. Both are calls into the
  library, and both may raise.
\<close>

definition tokens_manage :: "string \<Rightarrow> string list \<Rightarrow> world \<Rightarrow> unit res \<times> world" where
  "tokens_manage name scopes w =
     ((if service_manage_fails w name then Raise OtherTokensError else Ret ()),
      emit (EvManage name scopes) w)"

definition tokens_get :: "string \<Rightarrow> world \<Rightarrow> pyval res \<times> world" where
  "tokens_get name w =
     ((case service_tokens w name of
         ServiceToken t \<Rightarrow> Ret t
       | ServiceConfigurationMissing \<Rightarrow> Raise TokensConfigurationError
       | ServiceCredentialsUnreadable \<Rightarrow> Raise TokensInvalidCredentialsError
       | ServiceOtherFailure \<Rightarrow> Raise OtherTokensError),
      emit (EvServiceGet name) w)"

section \<open>The module\<close>

definition TOKEN_MINIMUM_VALIDITY_SECONDS :: int where
  "TOKEN_MINIMUM_VALIDITY_SECONDS = 60 * 5"

text \<open>
  \<^verbatim>\<open>get_tokens\<close>: the bare \<^verbatim>\<open>except\<close> turns every failure of opening or parsing the file
  into \<^verbatim>\<open>None\<close>, and \<^verbatim>\<open>data or {}\<close> turns every falsy document into the empty dictionary.
\<close>

definition get_tokens :: "world \<Rightarrow> pyval \<times> world" where
  "get_tokens w =
     (let data = (case tokens_file w of Content v \<Rightarrow> v | Unreadable \<Rightarrow> PNone | Unparseable \<Rightarrow> PNone)
      in (if truthy data then data else PDict [], emit EvReadTokens w))"

text \<open>\<^verbatim>\<open>is_user_scope\<close>: membership in \<^verbatim>\<open>set(['uid', 'cn'])\<close>.\<close>

definition is_user_scope :: "string \<Rightarrow> bool" where
  "is_user_scope scope = (scope \<in> set [''uid'', ''cn''])"

text \<open>The query parameters that \<^verbatim>\<open>get_new_token\<close> builds before the request.\<close>

definition request_params :: "pyval \<Rightarrow> string list \<Rightarrow> dict" where
  "request_params realm scope =
     (let params = [(''json'', PStr ''true'')];
          params = (if truthy realm then dict_set params ''realm'' realm else params);
          params = (if scope \<noteq> []
                    then dict_set params ''scope'' (PStr (str_join '' '' (filter is_user_scope scope)))
                    else params)
      in params)"

definition get_new_token ::
  "pyval \<Rightarrow> string list \<Rightarrow> pyval \<Rightarrow> pyval \<Rightarrow> pyval \<Rightarrow> pyval \<Rightarrow> world \<Rightarrow> pyval res \<times> world" where
  "get_new_token realm scope user password url insecure w =
     (case (if \<not> truthy url
            then (case get_config w of (config, w') \<Rightarrow> (dict_get config ''url'', w'))
            else (url, w)) of
        (url, w) \<Rightarrow>
          (case requests_get url (request_params realm scope) (Some (user, password))
                  (\<not> truthy insecure) None w of
             (None, w) \<Rightarrow> (Blocked, w)
           | (Some TransportFailure, w) \<Rightarrow> (Raise TransportError, w)
           | (Some (Response status body js), w) \<Rightarrow>
               (if status = 401
                then (Raise (AuthenticationFailed (''Token Service returned '' @ body)), w)
                else if status \<noteq> 200
                then (Raise (ServerError (''Token Service returned HTTP status '' @ str_int status
                                           @ '': '' @ body)), w)
                else (case js of
                        None \<Rightarrow> (Raise (ServerError ''Token Service returned invalid JSON data''), w)
                      | Some json_data \<Rightarrow>
                          (case json_data of
                             PDict d \<Rightarrow>
                               (if \<not> truthy (dict_get d ''access_token'')
                                then (Raise (ServerError
                                        ''Token Service returned invalid JSON (access_token missing)''), w)
                                else (Ret json_data, w))
                           | _ \<Rightarrow> (Raise AttributeError, w))))))"

text \<open>
  \<^verbatim>\<open>is_valid\<close>: \<^verbatim>\<open>token and now < ...\<close> gives back the token itself when it is falsy, and
  the comparison otherwise. \<^verbatim>\<open>token.get\<close> exists on dictionaries only, and the sum needs
  numbers. The sum and the difference are integer operations on integers and float
  operations, which round, as soon as a float takes part; the clock is a float.
\<close>

definition is_valid :: "pyval \<Rightarrow> world \<Rightarrow> pyval res \<times> world" where
  "is_valid token w =
     (case time_time w of
        (now, w) \<Rightarrow>
          (if \<not> truthy token then (Ret token, w)
           else (case token of
                   PDict d \<Rightarrow>
                     (case (as_num (dict_get_default d ''creation_time'' (PInt 0)),
                            as_num (dict_get_default d ''expires_in'' (PInt 0))) of
                        (Some creation_time, Some expires_in) \<Rightarrow>
                          (case num_add (float_round w) creation_time expires_in of
                             Inl Overflow \<Rightarrow> (Raise OverflowError, w)
                           | Inr expiry \<Rightarrow>
                               (case num_sub (float_round w) expiry
                                       (NInt TOKEN_MINIMUM_VALIDITY_SECONDS) of
                                  Inl Overflow \<Rightarrow> (Raise OverflowError, w)
                                | Inr threshold \<Rightarrow>
                                    (Ret (PBool (real_less_num now threshold)), w)))
                      | _ \<Rightarrow> (Raise TypeError, w))
                 | _ \<Rightarrow> (Raise AttributeError, w))))"

text \<open>
  \<^verbatim>\<open>get_existing_token\<close>: \<^verbatim>\<open>data.get(name)\<close> needs a dictionary; a token that is not valid
  falls off the end of the function, which returns \<^verbatim>\<open>None\<close>.
\<close>

definition get_existing_token :: "string \<Rightarrow> world \<Rightarrow> pyval res \<times> world" where
  "get_existing_token name w =
     (case get_tokens w of
        (data, w) \<Rightarrow>
          (case data of
             PDict d \<Rightarrow>
               (let existing_token = dict_get d name
                in (case is_valid existing_token w of
                      (Ret v, w) \<Rightarrow> (if truthy v then (Ret existing_token, w) else (Ret PNone, w))
                    | (Raise e, w) \<Rightarrow> (Raise e, w)
                    | (Blocked, w) \<Rightarrow> (Blocked, w)))
           | _ \<Rightarrow> (Raise AttributeError, w)))"

text \<open>
  \<^verbatim>\<open>store_token\<close> changes the dictionary it is given (\<^verbatim>\<open>data[name]\<close> is \<^verbatim>\<open>result\<close> itself),
  so the caller sees the new \<^verbatim>\<open>creation_time\<close>: the model returns the changed record.
  The right-hand side \<^verbatim>\<open>time.time()\<close> is evaluated before the item assignment can fail.
  The serializer is a collaborator: the file holds the document that was dumped.
\<close>

definition store_token :: "string \<Rightarrow> pyval \<Rightarrow> world \<Rightarrow> pyval res \<times> world" where
  "store_token name result w =
     (case get_tokens w of
        (data, w) \<Rightarrow>
          (case data of
             PDict d \<Rightarrow>
               (case time_time w of
                  (now, w) \<Rightarrow>
                    (case result of
                       PDict r \<Rightarrow>
                         (let result = PDict (dict_set r ''creation_time'' (PFloat (Finite now)));
                              data = PDict (dict_set d name result);
                              w = (if tokens_dir w \<noteq> [] then emit EvMakedirs w else w)
                          in if tokens_writable w
                             then (Ret result, emit (EvWriteTokens data) (w\<lparr>tokens_file := Content data\<rparr>))
                             else (Raise OSError, w))
                     | _ \<Rightarrow> (Raise TypeError, w)))
           | _ \<Rightarrow> (Raise TypeError, w)))"

text \<open>
  \<^verbatim>\<open>get_service_token\<close>: \<^verbatim>\<open>tokens.manage\<close> is called before the \<^verbatim>\<open>try\<close>, and the two
  \<^verbatim>\<open>except\<close> clauses name two classes; an exception of another class leaves the function.
\<close>

definition get_service_token :: "string \<Rightarrow> string list \<Rightarrow> world \<Rightarrow> pyval res \<times> world" where
  "get_service_token name scopes w =
     (case tokens_manage name scopes w of
        (Raise e, w) \<Rightarrow> (Raise e, w)
      | (Blocked, w) \<Rightarrow> (Blocked, w)
      | (Ret u, w) \<Rightarrow>
          (case tokens_get name w of
             (Ret access_token, w) \<Rightarrow> (Ret access_token, w)
           | (Raise e, w) \<Rightarrow>
               (case e of
                  TokensConfigurationError \<Rightarrow> (Ret PNone, w)
                | TokensInvalidCredentialsError \<Rightarrow> (Ret PNone, w)
                | _ \<Rightarrow> (Raise e, w))
           | (Blocked, w) \<Rightarrow> (Blocked, w)))"

text \<open>\<^verbatim>\<open>token['access_token']\<close>: subscription by a string key.\<close>

definition py_getitem :: "pyval \<Rightarrow> string \<Rightarrow> pyval res" where
  "py_getitem v k =
     (case v of
        PDict d \<Rightarrow> (case map_of d k of None \<Rightarrow> Raise KeyError | Some x \<Rightarrow> Ret x)
      | _ \<Rightarrow> Raise TypeError)"

text \<open>
  \<^verbatim>\<open>get_token\<close>. The operands of \<^verbatim>\<open>or\<close> are evaluated from the left, and only until one
  is truthy.
\<close>

definition get_token :: "string \<Rightarrow> string list \<Rightarrow> world \<Rightarrow> pyval res \<times> world" where
  \<open>get_token name scopes w =
     (case get_existing_token name w of
        (Raise e, w) \<Rightarrow> (Raise e, w)
      | (Blocked, w) \<Rightarrow> (Blocked, w)
      | (Ret token, w) \<Rightarrow>
          (if truthy token then (py_getitem token ''access_token'', w)
           else
             (case get_service_token name scopes w of
                (Raise e, w) \<Rightarrow> (Raise e, w)
              | (Blocked, w) \<Rightarrow> (Blocked, w)
              | (Ret access_token, w) \<Rightarrow>
                  (if truthy access_token then (Ret access_token, w)
                   else
                     (case get_config w of
                        (config, w) \<Rightarrow>
                          (case (if truthy (dict_get config ''user'') then (dict_get config ''user'', w)
                                 else (case os_getenv ''ZIGN_USER'' w of
                                         (u, w) \<Rightarrow> (if truthy u then (u, w) else os_getenv ''USER'' w))) of
                             (user, w) \<Rightarrow>
                               (if \<not> truthy user
                                then (Raise (ConfigurationError
                                       (''Missing OAuth username. '' @
                                        ''Either set "user" in configuration file or ZIGN_USER environment variable.'')), w)
                                else if \<not> truthy (dict_get config ''url'')
                                then (Raise (ConfigurationError
                                       (''Missing OAuth access token service URL. '' @
                                        ''Please set "url" in configuration file.'')), w)
                                else
                                  (case os_getenv ''ZIGN_PASSWORD'' w of
                                     (p, w) \<Rightarrow>
                                       (case (if truthy p then (p, w) else keyring_get_password user w) of
                                          (password, w) \<Rightarrow>
                                            (case get_new_token (dict_get config ''realm'') scopes user password
                                                    (dict_get config ''url'') (dict_get config ''insecure'') w of
                                               (Raise e, w) \<Rightarrow> (Raise e, w)
                                             | (Blocked, w) \<Rightarrow> (Blocked, w)
                                             | (Ret token, w) \<Rightarrow>
                                                 (if truthy token
                                                  then (case store_token name token w of
                                                          (Raise e, w) \<Rightarrow> (Raise e, w)
                                                        | (Blocked, w) \<Rightarrow> (Blocked, w)
                                                        | (Ret token, w) \<Rightarrow> (py_getitem token ''access_token'', w))
                                                  else (Ret PNone, w))))))))))))\<close>

subsection \<open>The interactive flow\<close>

text \<open>What the collaborators consume, for the termination of the two loops.\<close>

lemma http_replies_emit: "http_replies (emit e w) = http_replies w"
  by (simp add: emit_def)

lemma get_new_token_consumes:
  "get_new_token realm scope user password url insecure w = (r, w') \<Longrightarrow> r \<noteq> Blocked
     \<Longrightarrow> length (http_replies w') < length (http_replies w)"
  by (auto simp: get_new_token_def get_config_def requests_get_def emit_def
           split: if_splits list.splits http_reply.splits option.splits pyval.splits)

lemma click_prompt_http: "click_prompt k w = (a, w') \<Longrightarrow> http_replies w' = http_replies w"
  by (auto simp: click_prompt_def emit_def split: list.splits)

lemma click_prompt_consumes:
  "click_prompt k w = (Some a, w') \<Longrightarrow> length (prompt_answers w') < length (prompt_answers w)"
  by (auto simp: click_prompt_def emit_def split: list.splits)

lemma requests_get_prompts:
  "requests_get url params auth verify timeout w = (r, w') \<Longrightarrow> prompt_answers w' = prompt_answers w"
  by (auto simp: requests_get_def emit_def split: list.splits)

text \<open>
  The \<^verbatim>\<open>while True\<close> loop of \<^verbatim>\<open>get_named_token\<close>. It returns the record of the token
  service together with the password that obtained it, which the caller may store in the
  keyring. Every round sends one request, so the loop ends when the script of replies does.
\<close>

function token_request_loop ::
  "pyval \<Rightarrow> string list \<Rightarrow> pyval \<Rightarrow> pyval \<Rightarrow> pyval \<Rightarrow> bool \<Rightarrow> pyval \<Rightarrow> world
     \<Rightarrow> (pyval \<times> pyval) res \<times> world" where
  "token_request_loop realm scope user url insecure prompt password w =
     (case (if \<not> truthy password \<and> prompt
            then (case click_prompt (PasswordPrompt user) w of
                    (None, w') \<Rightarrow> (None, w')
                  | (Some a, w') \<Rightarrow> (Some (PStr a), w'))
            else (Some password, w)) of
        (None, w1) \<Rightarrow> (Blocked, w1)
      | (Some password1, w1) \<Rightarrow>
          (case get_new_token realm scope user password1 url insecure w1 of
             (Ret result, w2) \<Rightarrow> (Ret (result, password1), w2)
           | (Blocked, w2) \<Rightarrow> (Blocked, w2)
           | (Raise e, w2) \<Rightarrow>
               (case e of
                  AuthenticationFailed m \<Rightarrow>
                    (if prompt
                     then token_request_loop realm scope user url insecure prompt PNone
                            (emit (EvInfo ''Please check your username and password and try again.'')
                               (emit (EvError (''Authentication failed: '' @ m)) w2))
                     else (Raise e, w2))
                | _ \<Rightarrow> (Raise e, w2))))"
  by pat_completeness auto
termination
  apply (relation "measure (\<lambda>(realm, scope, user, url, insecure, prompt, password, w). length (http_replies w))")
   apply simp
  apply (auto simp: http_replies_emit split: if_splits prod.splits option.splits)
   apply (metis click_prompt_http get_new_token_consumes res.distinct(5))
  apply (metis get_new_token_consumes res.distinct(5))
  done

text \<open>
  The \<^verbatim>\<open>while not url and prompt\<close> loop of \<^verbatim>\<open>get_named_token\<close>: ask for a URL, probe it
  with a request that has a timeout of five seconds, and write the URL, or \<^verbatim>\<open>None\<close> when
  the probe raised, into the configuration dictionary.
\<close>

function url_prompt_loop ::
  "pyval \<Rightarrow> bool \<Rightarrow> pyval \<Rightarrow> dict \<Rightarrow> world \<Rightarrow> (pyval \<times> dict) res \<times> world" where
  "url_prompt_loop insecure prompt url config w =
     (if \<not> truthy url \<and> prompt
      then (case click_prompt UrlPrompt w of
              (None, w1) \<Rightarrow> (Blocked, w1)
            | (Some a, w1) \<Rightarrow>
                (case requests_get (PStr a) [] None (\<not> truthy insecure) (Some 5) w1 of
                   (None, w2) \<Rightarrow> (Blocked, w2)
                 | (Some TransportFailure, w2) \<Rightarrow>
                     url_prompt_loop insecure prompt PNone (dict_set config ''url'' PNone)
                       (emit (EvError (''Could not reach '' @ a)) w2)
                 | (Some (Response status body js), w2) \<Rightarrow>
                     url_prompt_loop insecure prompt (PStr a) (dict_set config ''url'' (PStr a)) w2))
      else (Ret (url, config), w))"
  by pat_completeness auto
termination
  apply (relation "measure (\<lambda>(insecure, prompt, url, config, w). length (prompt_answers w))")
   apply simp
  apply (auto simp: emit_def)
   apply (metis click_prompt_consumes requests_get_prompts)
  apply (metis click_prompt_consumes requests_get_prompts)
  done

declare token_request_loop.simps [simp del]

declare url_prompt_loop.simps [simp del]

text \<open>
  \<^verbatim>\<open>get_named_token\<close> from the resolution of the URL on (the statements after the two
  early returns): load the configuration, resolve the URL, store the configuration, resolve
  the password, request the token, and keep the password and the token if asked to. The
  result is the record after \<^verbatim>\<open>store_token\<close> has set its \<^verbatim>\<open>creation_time\<close>, when a name
  is given.
\<close>

definition request_named_token ::
  "string list \<Rightarrow> pyval \<Rightarrow> string \<Rightarrow> pyval \<Rightarrow> pyval \<Rightarrow> pyval \<Rightarrow> pyval \<Rightarrow> bool \<Rightarrow> bool
     \<Rightarrow> world \<Rightarrow> pyval res \<times> world" where
  "request_named_token scope realm name user password url insecure use_keyring prompt w =
     (case get_config w of
        (config, w) \<Rightarrow>
          (case url_prompt_loop insecure prompt
                  (if truthy url then url else dict_get config ''url'') config w of
             (Raise e, w) \<Rightarrow> (Raise e, w)
           | (Blocked, w) \<Rightarrow> (Blocked, w)
           | (Ret (url, config), w) \<Rightarrow>
               (let w = store_config config w
                in (case (if truthy password then (password, w)
                          else keyring_get_password user w) of
                      (password, w) \<Rightarrow>
                        (case token_request_loop realm scope user url insecure prompt password w of
                           (Raise e, w) \<Rightarrow> (Raise e, w)
                         | (Blocked, w) \<Rightarrow> (Blocked, w)
                         | (Ret (result, password), w) \<Rightarrow>
                             (let w = (if truthy result \<and> use_keyring
                                       then keyring_set_password user password w
                                       else w)
                              in if name \<noteq> [] then store_token name result w
                                 else (Ret result, w)))))))"

text \<open>
  \<^verbatim>\<open>get_named_token\<close>: the two early returns, then the request. A falsy \<^verbatim>\<open>name\<close> is the
  empty string.
\<close>

definition get_named_token ::
  "string list \<Rightarrow> pyval \<Rightarrow> string \<Rightarrow> pyval \<Rightarrow> pyval \<Rightarrow> pyval \<Rightarrow> pyval \<Rightarrow> bool \<Rightarrow> bool \<Rightarrow> bool
     \<Rightarrow> world \<Rightarrow> pyval res \<times> world" where
  "get_named_token scope realm name user password url insecure refresh use_keyring prompt w =
     (case (if name \<noteq> [] \<and> \<not> refresh then get_existing_token name w else (Ret PNone, w)) of
        (Raise e, w) \<Rightarrow> (Raise e, w)
      | (Blocked, w) \<Rightarrow> (Blocked, w)
      | (Ret existing_token, w) \<Rightarrow>
          (if truthy existing_token then (Ret existing_token, w)
           else
             (case (if name \<noteq> [] \<and> \<not> truthy realm then get_service_token name scope w
                    else (Ret PNone, w)) of
                (Raise e, w) \<Rightarrow> (Raise e, w)
              | (Blocked, w) \<Rightarrow> (Blocked, w)
              | (Ret access_token, w) \<Rightarrow>
                  (if truthy access_token then (Ret (PDict [(''access_token'', access_token)]), w)
                   else request_named_token scope realm name user password url insecure
                          use_keyring prompt w))))"

section \<open>Reading results, and concrete inputs\<close>

text \<open>A call returned, and what it returned is truthy.\<close>

fun returns_truthy :: "pyval res \<Rightarrow> bool" where
  "returns_truthy (Ret v) = truthy v"
| "returns_truthy (Raise e) = False"
| "returns_truthy Blocked = False"

text \<open>A call returned, and what it returned is falsy.\<close>

fun returns_falsy :: "pyval res \<Rightarrow> bool" where
  "returns_falsy (Ret v) = (\<not> truthy v)"
| "returns_falsy (Raise e) = False"
| "returns_falsy Blocked = False"

text \<open>
  A world where nothing is configured: no token file, no configuration, no credentials,
  nobody at the prompt and no server; the clock stands at \<^verbatim>\<open>now\<close>.
\<close>

definition quiet_world :: "real \<Rightarrow> world" where
  "quiet_world now =
     \<lparr>clock = (\<lambda>n. now), ticks = 0, float_round = round_double, tokens_file = Unreadable, tokens_dir = ''/home/user/.config/zign'',
      tokens_writable = True, config_store = [], environ = (\<lambda>k. None), keyring_db = (\<lambda>u. PNone),
      service_manage_fails = (\<lambda>n. False), service_tokens = (\<lambda>n. ServiceConfigurationMissing),
      http_replies = [], prompt_answers = [],
      trace = []\<rparr>"

text \<open>A record of a token that lasts one hour.\<close>

definition hour_token :: "real \<Rightarrow> dict" where
  "hour_token created =
     [(''access_token'', PStr ''abc''), (''expires_in'', PInt 3600),
      (''creation_time'', PFloat (Finite created))]"

text \<open>
  The floats that Python reads from \<^verbatim>\<open>0.1\<close>, \<^verbatim>\<open>300.2\<close> and \<^verbatim>\<open>0.3\<close>, and a record created
  at \<^verbatim>\<open>0.1\<close> that lasts \<^verbatim>\<open>300.2\<close> seconds.
\<close>

definition tenth :: real where "tenth = 3602879701896397 / 36028797018963968"

definition three_hundred_and_a_fifth :: real where
  "three_hundred_and_a_fifth = 5281174250533683 / 17592186044416"

definition three_tenths :: real where "three_tenths = 5404319552844595 / 18014398509481984"

definition short_token :: dict where
  "short_token =
     [(''access_token'', PStr ''abc''), (''expires_in'', PFloat (Finite three_hundred_and_a_fifth)),
      (''creation_time'', PFloat (Finite tenth))]"

text \<open>A record whose \<^verbatim>\<open>expires_in\<close> is an integer too large for a float.\<close>

definition huge_expiry :: int where "huge_expiry = 10 ^ 400"

definition endless_token :: dict where
  "endless_token =
     [(''access_token'', PStr ''abc''), (''expires_in'', PInt huge_expiry),
      (''creation_time'', PFloat (Finite 1000))]"

text \<open>A response body of the token service, parsed.\<close>

definition token_body :: dict where
  "token_body = [(''access_token'', PStr ''abc''), (''expires_in'', PInt 3600)]"

text \<open>The quiet world with a script of replies, and a user with a password and a URL.\<close>

definition reply_world :: "http_reply list \<Rightarrow> world" where
  "reply_world rs = (quiet_world 0)\<lparr>http_replies := rs\<rparr>"

definition example_user :: pyval where "example_user = PStr ''jdoe''"
definition example_password :: pyval where "example_password = PStr ''secret''"
definition example_url :: pyval where "example_url = PStr ''https://token.example.org/access_token''"

text \<open>The quiet world with a token file that holds a cache.\<close>

definition cached_world :: "real \<Rightarrow> dict \<Rightarrow> world" where
  "cached_world now cache = (quiet_world now)\<lparr>tokens_file := Content (PDict cache)\<rparr>"

text \<open>The quiet world where only the variable \<^verbatim>\<open>USER\<close> of the environment is set.\<close>

definition os_user_world :: world where
  "os_user_world = (quiet_world 0)\<lparr>environ := (\<lambda>k. if k = ''USER'' then Some ''jdoe'' else None)\<rparr>"

text \<open>
  The world after \<^verbatim>\<open>get_named_token\<close> has tried the cache (when a name is given and no
  refresh is asked for) and the service token provider (when a name is given without a
  realm), and neither gave a token.
\<close>

definition after_misses :: "string \<Rightarrow> string list \<Rightarrow> pyval \<Rightarrow> bool \<Rightarrow> world \<Rightarrow> world" where
  "after_misses name scope realm refresh w =
     (let w = (if name \<noteq> [] \<and> \<not> refresh then (emit EvReadTokens w)\<lparr>ticks := Suc (ticks w)\<rparr> else w)
      in if name \<noteq> [] \<and> \<not> truthy realm
         then emit (EvServiceGet name) (emit (EvManage name scope) w) else w)"





text \<open>
  A world with no URL configured, a user who types one at the prompt, and a server that
  answers the probe and then issues a token.
\<close>

definition asking_world :: world where
  "asking_world =
     (reply_world [Response 200 ''hello'' None, Response 200 ''body'' (Some (PDict token_body))])
       \<lparr>prompt_answers := [''https://token.example.org/access_token'']\<rparr>"

section \<open>Validity of a cached record\<close>

text \<open>Integers below \<open>2\<close> to the \<open>53\<close> are floats, and rounding leaves them alone.\<close>

lemma round_half_even_of_int: "round_half_even (of_int m) = m"
  by (simp add: round_half_even_def)

lemma round_double_of_int:
  assumes "\<bar>n\<bar> < 2 ^ 53"
  shows "round_double (of_int n) = Finite (of_int n)"
proof (cases "n = 0")
  case True
  then show ?thesis by (simp add: round_double_def)
next
  case False
  define x :: real where "x = of_int n"
  define k where "k = \<lfloor>log 2 \<bar>x\<bar>\<rfloor>"
  have x1: "1 \<le> \<bar>x\<bar>" using False by (simp add: x_def)
  have x2: "\<bar>x\<bar> < 2 ^ 53"
  proof -
    have "\<bar>x\<bar> = of_int \<bar>n\<bar>" by (simp add: x_def)
    also have "\<dots> < of_int (2 ^ 53)" using assms by (simp only: of_int_less_iff)
    finally show ?thesis by simp
  qed
  have k0: "0 \<le> k"
    using x1 by (simp add: k_def)
  have "log 2 \<bar>x\<bar> < 53"
    using x1 x2 by (subst log_less_iff) simp_all
  then have k52: "k \<le> 52"
    unfolding k_def by linarith
  define j where "j = nat (52 - k)"
  have q: "double_quantum x = 1 / 2 ^ j"
  proof -
    have "max k (- 1022) - 52 = - int j"
      using k0 k52 by (simp add: j_def)
    then have "double_quantum x = 2 powi (- int j)"
      by (simp only: double_quantum_def k_def [symmetric])
    then show ?thesis
      by (simp add: power_int_minus field_simps)
  qed
  have d: "x / double_quantum x = of_int (n * 2 ^ j)"
    unfolding q by (simp add: x_def)
  have r: "of_int (round_half_even (x / double_quantum x)) * double_quantum x = x"
    unfolding d round_half_even_of_int unfolding q by (simp add: x_def)
  have b: "\<bar>x\<bar> < 2 ^ 1024"
  proof -
    have "(2::real) ^ 53 \<le> 2 ^ 1024" by (rule power_increasing) simp_all
    with x2 show ?thesis by linarith
  qed
  have "x \<noteq> 0" using x1 by auto
  then show ?thesis
    using b unfolding x_def [symmetric]
    by (simp add: round_double_def r Let_def abs_less_iff not_le)
qed

lemma round_double_numeral:
  "(numeral k :: int) < 2 ^ 53 \<Longrightarrow> round_double (numeral k) = Finite (numeral k)"
  using round_double_of_int [of "numeral k"] by simp

text \<open>
  A number in the binade of \<open>2\<close> to the \<open>k\<close> is rounded to a multiple of \<open>2\<close> to the
  \<open>k - 52\<close>, and a number from \<open>2\<close> to the \<open>1024\<close> on is rounded to infinity.
\<close>

lemma double_quantum_binade:
  assumes "2 powr of_int k \<le> \<bar>x\<bar>" and "\<bar>x\<bar> < 2 powr of_int (k + 1)" and "- 1022 \<le> k"
  shows "double_quantum x = 2 powi (k - 52)"
proof -
  have "(0::real) < 2 powr of_int k"
    by simp
  with assms(1) have "0 < \<bar>x\<bar>"
    by linarith
  then have "\<lfloor>log 2 \<bar>x\<bar>\<rfloor> = k"
    using assms(1,2) by (subst floor_log_eq_powr_iff) simp_all
  then show ?thesis
    using assms(3) by (simp add: double_quantum_def)
qed

lemma round_double_binade:
  assumes "2 powr of_int k \<le> \<bar>x\<bar>" and "\<bar>x\<bar> < 2 powr of_int (k + 1)" and "- 1022 \<le> k"
      and "round_half_even (x / 2 powi (k - 52)) = n"
      and "\<bar>of_int n * 2 powi (k - 52)\<bar> < (2::real) ^ 1024"
  shows "round_double x = Finite (of_int n * 2 powi (k - 52))"
proof -
  have "(0::real) < 2 powr of_int k"
    by simp
  with assms(1) have "x \<noteq> 0"
    by auto
  then show ?thesis
    using assms(4,5)
    by (simp add: round_double_def double_quantum_binade [OF assms(1-3)] Let_def
          abs_less_iff not_le)
qed

lemma round_double_large:
  assumes "2 ^ 1024 \<le> x"
  shows "round_double x = PosInf"
proof -
  define k where "k = \<lfloor>log 2 \<bar>x\<bar>\<rfloor>"
  have "(0::real) < 2 ^ 1024"
    by (rule zero_less_power) simp
  from this assms have x0: "0 < x"
    by (rule less_le_trans)
  have "1024 \<le> log 2 x"
    using assms x0 by (subst le_log_iff) simp_all
  then have k1: "1024 \<le> k"
    using x0 unfolding k_def by (simp add: le_floor_iff)
  have kx: "2 powr of_int k \<le> x"
    using x0 floor_log_eq_powr_iff [of "\<bar>x\<bar>" 2 k] by (simp add: k_def)
  define q :: real where "q = 2 powi (k - 52)"
  have q0: "0 < q" by (simp add: q_def)
  have dq: "double_quantum x = q"
    using k1 by (simp add: double_quantum_def k_def [symmetric] q_def)
  have nk: "nat k = 52 + nat (k - 52)"
    using k1 by simp
  have qn: "q = 2 ^ nat (k - 52)"
    using k1 by (simp add: q_def power_int_def)
  have "2 powr of_int k = (2::real) ^ nat k"
    using k1 by (simp add: powr_real_of_int)
  also have "\<dots> = 2 ^ 52 * 2 ^ nat (k - 52)"
    by (subst nk) (simp only: power_add)
  finally have pk: "2 powr of_int k = 2 ^ 52 * q"
    by (simp only: qn)
  have "2 ^ 52 * q \<le> x"
    using kx pk by simp
  then have "2 ^ 52 \<le> x / q"
    using q0 by (simp add: pos_le_divide_eq)
  then have "(2::int) ^ 52 \<le> \<lfloor>x / q\<rfloor>"
    by (simp add: le_floor_iff)
  moreover have "\<lfloor>x / q\<rfloor> \<le> round_half_even (x / q)"
    by (simp add: round_half_even_def Let_def)
  ultimately have "(2::int) ^ 52 \<le> round_half_even (x / q)"
    by linarith
  then have "(2::real) ^ 52 \<le> of_int (round_half_even (x / q))"
    by (metis of_int_le_iff of_int_numeral of_int_power)
  then have "2 ^ 52 * q \<le> of_int (round_half_even (x / q)) * q"
    using q0 by simp
  moreover have "(2::real) ^ 1024 \<le> 2 ^ 52 * q"
  proof -
    have "(2::real) ^ 1024 = 2 powr of_int 1024" by (simp add: powr_realpow)
    also have "\<dots> \<le> 2 powr of_int k" using k1 by (simp del: of_int_numeral)
    also have "\<dots> = 2 ^ 52 * q" by (rule pk)
    finally show ?thesis .
  qed
  ultimately have "2 ^ 1024 \<le> of_int (round_half_even (x / q)) * q"
    by linarith
  then show ?thesis
    using x0 by (simp add: round_double_def dq Let_def)
qed

text \<open>
  \<^verbatim>\<open>0.1 + 300.2\<close> is rounded, the difference \<^verbatim>\<open>(0.1 + 300.2) - 300\<close> is exact, and
  \<^verbatim>\<open>1000.0 + 10 ** 400\<close> overflows in the conversion of the integer.
\<close>

lemma round_sum_example:
  "round_double (tenth + three_hundred_and_a_fifth) = Finite (5282933469138125 / 17592186044416)"
proof -
  have "round_double (tenth + three_hundred_and_a_fifth)
          = Finite (of_int 5282933469138125 * 2 powi (8 - 52))"
    by (rule round_double_binade)
       (simp_all add: tenth_def three_hundred_and_a_fifth_def round_half_even_def power_int_minus
          Let_def)
  then show ?thesis
    by (simp add: power_int_minus)
qed

lemma round_difference_example:
  "round_double (5282933469138125 / 17592186044416 - 300) = Finite (5277655813325 / 17592186044416)"
proof -
  have "round_double (5282933469138125 / 17592186044416 - 300)
          = Finite (of_int 5404319552844800 * 2 powi (- 2 - 52))"
    by (rule round_double_binade)
       (simp_all add: round_half_even_def power_int_minus powr_neg_numeral powr_neg_one Let_def)
  then show ?thesis
    by (simp add: power_int_minus)
qed

lemma short_token_sum:
  "num_add round_double (NFloat (Finite tenth)) (NFloat (Finite three_hundred_and_a_fifth))
     = Inr (NFloat (Finite (5282933469138125 / 17592186044416)))"
  by (simp add: round_sum_example)

lemma short_token_threshold:
  "num_sub round_double (NFloat (Finite (5282933469138125 / 17592186044416))) (NInt 300)
     = Inr (NFloat (Finite (5277655813325 / 17592186044416)))"
  using round_difference_example
  by (simp add: int_to_float_def float_sub_def round_double_numeral)

lemma endless_token_sum:
  "num_add round_double (NFloat (Finite 1000)) (NInt huge_expiry) = Inl Overflow"
proof -
  have "round_double (of_int huge_expiry) = PosInf"
    by (rule round_double_large) (simp add: huge_expiry_def)
  then show ?thesis
    by (simp add: int_to_float_def)
qed

lemma real_less_num_real: "num_real n = Some r \<Longrightarrow> real_less_num x n = (x < r)"
  by (cases n rule: num_real.cases) simp_all

text \<open>What \<^verbatim>\<open>is_valid\<close> computes for a record with numbers.\<close>

lemma is_valid_computed:
  assumes "as_num (dict_get_default d ''creation_time'' (PInt 0)) = Some c"
      and "as_num (dict_get_default d ''expires_in'' (PInt 0)) = Some e"
      and "num_add (float_round w) c e = Inr expiry"
      and "num_sub (float_round w) expiry (NInt 300) = Inr threshold"
  shows "fst (is_valid (PDict d) w)
           = Ret (if d = [] then PDict [] else PBool (real_less_num (clock w (ticks w)) threshold))"
  using assms
  by (simp add: is_valid_def time_time_def TOKEN_MINIMUM_VALIDITY_SECONDS_def)

text \<open>
  C1, as stated, at the boundary: a record created at 1000 with \<^verbatim>\<open>expires_in\<close> 3600 has
  exactly 300 seconds left at 4300, and \<^verbatim>\<open>is_valid\<close> returns \<^verbatim>\<open>False\<close>: the comparison
  is strict. All the numbers are whole, and the float arithmetic is exact on them.
\<close>

theorem is_valid_boundary_counterexample:
  "(1000 + 3600 - 4300 \<ge> (300::real))
   \<and> fst (is_valid (PDict (hour_token 1000)) (quiet_world 4300)) = Ret (PBool False)"
  by (simp add: is_valid_def time_time_def quiet_world_def hour_token_def dict_get_default_def
        TOKEN_MINIMUM_VALIDITY_SECONDS_def int_to_float_def float_sub_def round_double_numeral)

text \<open>
  C1, amended: for a record whose \<^verbatim>\<open>creation_time\<close> and \<^verbatim>\<open>expires_in\<close> are numbers
  (the integer 0 when missing), \<^verbatim>\<open>is_valid\<close> is truthy iff the record is not empty and
  \<^verbatim>\<open>now\<close> is less than the threshold \<^verbatim>\<open>creation_time + expires_in - 300\<close> as Python
  computes it, in integers or in rounded floats. Whenever the computed threshold is the
  exact one, \<^verbatim>\<open>is_valid\<close> is truthy iff the record is not empty and
  \<^verbatim>\<open>now < creation_time + expires_in - 300\<close>; so it returns \<^verbatim>\<open>True\<close> when more than 300
  seconds remain and a falsy value when 300 seconds or fewer remain (negative included).
  When the sum or the difference overflows, on a record that is not empty, \<^verbatim>\<open>is_valid\<close>
  raises \<^verbatim>\<open>OverflowError\<close>. For an absent record it returns \<^verbatim>\<open>None\<close>.
\<close>

theorem is_valid_strict:
  assumes "as_num (dict_get_default d ''creation_time'' (PInt 0)) = Some c"
      and "as_num (dict_get_default d ''expires_in'' (PInt 0)) = Some e"
      and "now = clock w (ticks w)"
  shows "(num_add (float_round w) c e = Inr expiry
            \<and> num_sub (float_round w) expiry (NInt 300) = Inr threshold \<longrightarrow>
          fst (is_valid (PDict d) w)
            = Ret (if d = [] then PDict [] else PBool (real_less_num now threshold))
          \<and> (num_real c = Some creation_time \<and> num_real e = Some expires_in
               \<and> num_real threshold = Some (creation_time + expires_in - 300) \<longrightarrow>
               (returns_truthy (fst (is_valid (PDict d) w))
                  \<longleftrightarrow> d \<noteq> [] \<and> now < creation_time + expires_in - 300)
             \<and> (d \<noteq> [] \<and> creation_time + expires_in - now > 300
                  \<longrightarrow> fst (is_valid (PDict d) w) = Ret (PBool True))
             \<and> (creation_time + expires_in - now \<le> 300
                  \<longrightarrow> fst (is_valid (PDict d) w) = Ret (if d = [] then PDict [] else PBool False))))
       \<and> (d \<noteq> []
            \<and> (num_add (float_round w) c e = Inl Overflow
                \<or> num_add (float_round w) c e = Inr expiry
                    \<and> num_sub (float_round w) expiry (NInt 300) = Inl Overflow) \<longrightarrow>
          fst (is_valid (PDict d) w) = Raise OverflowError)
       \<and> fst (is_valid PNone w) = Ret PNone
       \<and> \<not> returns_truthy (fst (is_valid PNone w))"
proof (intro conjI impI)
  assume a: "num_add (float_round w) c e = Inr expiry
               \<and> num_sub (float_round w) expiry (NInt 300) = Inr threshold"
  then have a1: "num_add (float_round w) c e = Inr expiry"
    and a2: "num_sub (float_round w) expiry (NInt 300) = Inr threshold"
    by simp_all
  have v: "fst (is_valid (PDict d) w)
             = Ret (if d = [] then PDict [] else PBool (real_less_num now threshold))"
    unfolding assms(3) by (rule is_valid_computed [OF assms(1,2) a1 a2])
  show "fst (is_valid (PDict d) w)
             = Ret (if d = [] then PDict [] else PBool (real_less_num now threshold))"
    by (rule v)
  assume x: "num_real c = Some creation_time \<and> num_real e = Some expires_in
               \<and> num_real threshold = Some (creation_time + expires_in - 300)"
  show "returns_truthy (fst (is_valid (PDict d) w))
          \<longleftrightarrow> d \<noteq> [] \<and> now < creation_time + expires_in - 300"
    unfolding v using x by (auto simp: real_less_num_real)
  {
    assume "d \<noteq> [] \<and> creation_time + expires_in - now > 300"
    then show "fst (is_valid (PDict d) w) = Ret (PBool True)"
      unfolding v using x by (auto simp: real_less_num_real)
  }
  assume "creation_time + expires_in - now \<le> 300"
  then show "fst (is_valid (PDict d) w) = Ret (if d = [] then PDict [] else PBool False)"
    unfolding v using x by (auto simp: real_less_num_real)
next
  assume "d \<noteq> []
            \<and> (num_add (float_round w) c e = Inl Overflow
                \<or> num_add (float_round w) c e = Inr expiry
                    \<and> num_sub (float_round w) expiry (NInt 300) = Inl Overflow)"
  then show "fst (is_valid (PDict d) w) = Raise OverflowError"
    using assms(1,2)
    by (auto simp: is_valid_def time_time_def TOKEN_MINIMUM_VALIDITY_SECONDS_def)
next
  show "fst (is_valid PNone w) = Ret PNone"
    by (simp add: is_valid_def time_time_def)
  then show "\<not> returns_truthy (fst (is_valid PNone w))"
    by simp
qed

text \<open>
  C1 at a record created at 1000 that lasts 3600 seconds: valid after 10 minutes, not valid
  after 58 minutes, not valid with exactly 300 seconds left. At the record created at
  \<^verbatim>\<open>0.1\<close> that lasts \<^verbatim>\<open>300.2\<close> seconds, read at \<^verbatim>\<open>0.3\<close>: the sum is rounded up, the computed
  threshold is above \<^verbatim>\<open>0.3\<close>, and \<^verbatim>\<open>is_valid\<close> returns \<^verbatim>\<open>True\<close> although the three floats
  leave less than 300 seconds. And at the record with the huge \<^verbatim>\<open>expires_in\<close>:
  \<^verbatim>\<open>OverflowError\<close>.
\<close>

theorem is_valid_strict_witness:
  "as_num (dict_get_default (hour_token 1000) ''creation_time'' (PInt 0)) = Some (NFloat (Finite 1000))
   \<and> as_num (dict_get_default (hour_token 1000) ''expires_in'' (PInt 0)) = Some (NInt 3600)
   \<and> num_add (float_round (quiet_world 1600)) (NFloat (Finite 1000)) (NInt 3600)
       = Inr (NFloat (Finite 4600))
   \<and> num_sub (float_round (quiet_world 1600)) (NFloat (Finite 4600)) (NInt 300)
       = Inr (NFloat (Finite 4300))
   \<and> returns_truthy (fst (is_valid (PDict (hour_token 1000)) (quiet_world 1600)))
   \<and> fst (is_valid (PDict (hour_token 1000)) (quiet_world 1600)) = Ret (PBool True)
   \<and> fst (is_valid (PDict (hour_token 1000)) (quiet_world 4480)) = Ret (PBool False)
   \<and> fst (is_valid (PDict (hour_token 1000)) (quiet_world 4300)) = Ret (PBool False)
   \<and> tenth + three_hundred_and_a_fifth - three_tenths < 300
   \<and> num_add (float_round (quiet_world three_tenths)) (NFloat (Finite tenth))
         (NFloat (Finite three_hundred_and_a_fifth))
       = Inr (NFloat (Finite (5282933469138125 / 17592186044416)))
   \<and> num_sub (float_round (quiet_world three_tenths))
         (NFloat (Finite (5282933469138125 / 17592186044416))) (NInt 300)
       = Inr (NFloat (Finite (5277655813325 / 17592186044416)))
   \<and> fst (is_valid (PDict short_token) (quiet_world three_tenths)) = Ret (PBool True)
   \<and> num_add (float_round (quiet_world 1600)) (NFloat (Finite 1000)) (NInt huge_expiry)
       = Inl Overflow
   \<and> fst (is_valid (PDict endless_token) (quiet_world 1600)) = Raise OverflowError"
proof -
  have ct: "as_num (dict_get_default (hour_token 1000) ''creation_time'' (PInt 0))
              = Some (NFloat (Finite 1000))"
    by (simp add: hour_token_def dict_get_default_def)
  have ei: "as_num (dict_get_default (hour_token 1000) ''expires_in'' (PInt 0)) = Some (NInt 3600)"
    by (simp add: hour_token_def dict_get_default_def)
  have ad: "\<And>t. num_add (float_round (quiet_world t)) (NFloat (Finite 1000)) (NInt 3600)
              = Inr (NFloat (Finite 4600))"
    by (simp add: quiet_world_def int_to_float_def round_double_numeral)
  have su: "\<And>t. num_sub (float_round (quiet_world t)) (NFloat (Finite 4600)) (NInt 300)
              = Inr (NFloat (Finite 4300))"
    by (simp add: quiet_world_def int_to_float_def float_sub_def round_double_numeral)
  have ne: "hour_token 1000 \<noteq> []"
    by (simp add: hour_token_def)
  have c: "\<And>t. t = clock (quiet_world t) (ticks (quiet_world t))"
    by (simp add: quiet_world_def)
  have nr: "num_real (NFloat (Finite 1000)) = Some 1000" "num_real (NInt 3600) = Some 3600"
           "num_real (NFloat (Finite 4300)) = Some (1000 + 3600 - 300)"
    by simp_all
  have hour:
    "returns_truthy (fst (is_valid (PDict (hour_token 1000)) (quiet_world 1600)))
     \<and> fst (is_valid (PDict (hour_token 1000)) (quiet_world 1600)) = Ret (PBool True)
     \<and> fst (is_valid (PDict (hour_token 1000)) (quiet_world 4480)) = Ret (PBool False)
     \<and> fst (is_valid (PDict (hour_token 1000)) (quiet_world 4300)) = Ret (PBool False)"
    using is_valid_strict [OF ct ei c [of 1600], where expiry = "NFloat (Finite 4600)"
            and threshold = "NFloat (Finite 4300)" and creation_time = 1000 and expires_in = 3600]
          is_valid_strict [OF ct ei c [of 4480], where expiry = "NFloat (Finite 4600)"
            and threshold = "NFloat (Finite 4300)" and creation_time = 1000 and expires_in = 3600]
          is_valid_strict [OF ct ei c [of 4300], where expiry = "NFloat (Finite 4600)"
            and threshold = "NFloat (Finite 4300)" and creation_time = 1000 and expires_in = 3600]
          ad su ne nr
    by simp
  have sc: "as_num (dict_get_default short_token ''creation_time'' (PInt 0))
              = Some (NFloat (Finite tenth))"
    by (simp add: short_token_def dict_get_default_def)
  have se: "as_num (dict_get_default short_token ''expires_in'' (PInt 0))
              = Some (NFloat (Finite three_hundred_and_a_fifth))"
    by (simp add: short_token_def dict_get_default_def)
  have sa: "num_add (float_round (quiet_world three_tenths)) (NFloat (Finite tenth))
              (NFloat (Finite three_hundred_and_a_fifth))
            = Inr (NFloat (Finite (5282933469138125 / 17592186044416)))"
    unfolding quiet_world_def using short_token_sum by simp
  have ss: "num_sub (float_round (quiet_world three_tenths))
              (NFloat (Finite (5282933469138125 / 17592186044416))) (NInt 300)
            = Inr (NFloat (Finite (5277655813325 / 17592186044416)))"
    unfolding quiet_world_def using short_token_threshold by simp
  have sn: "short_token \<noteq> []"
    by (simp add: short_token_def)
  have lt: "three_tenths < 5277655813325 / 17592186044416"
    by (simp add: three_tenths_def)
  have short: "fst (is_valid (PDict short_token) (quiet_world three_tenths)) = Ret (PBool True)"
    using is_valid_strict [OF sc se c [of three_tenths],
            where expiry = "NFloat (Finite (5282933469138125 / 17592186044416))"
            and threshold = "NFloat (Finite (5277655813325 / 17592186044416))"
            and creation_time = 0 and expires_in = 0]
          sa ss sn lt
    by simp
  have rem: "tenth + three_hundred_and_a_fifth - three_tenths < 300"
    by (simp add: tenth_def three_hundred_and_a_fifth_def three_tenths_def)
  have ec: "as_num (dict_get_default endless_token ''creation_time'' (PInt 0))
              = Some (NFloat (Finite 1000))"
    by (simp add: endless_token_def dict_get_default_def)
  have ee: "as_num (dict_get_default endless_token ''expires_in'' (PInt 0))
              = Some (NInt huge_expiry)"
    by (simp add: endless_token_def dict_get_default_def)
  have ea: "num_add (float_round (quiet_world 1600)) (NFloat (Finite 1000)) (NInt huge_expiry)
              = Inl Overflow"
    unfolding quiet_world_def using endless_token_sum by simp
  have en: "endless_token \<noteq> []"
    by (simp add: endless_token_def)
  have endless: "fst (is_valid (PDict endless_token) (quiet_world 1600)) = Raise OverflowError"
    using is_valid_strict [OF ec ee c [of 1600], where expiry = "NInt 0" and threshold = "NInt 0"
            and creation_time = 0 and expires_in = 0] ea en
    by simp
  show ?thesis
    using ct ei ad su hour rem sa ss short ea endless by simp
qed

section \<open>Loading the token cache\<close>

text \<open>
  C8: loading the cache never fails. \<^verbatim>\<open>get_tokens\<close> returns a document, never an exception;
  when the file cannot be read or cannot be parsed it returns the empty cache, and
  \<^verbatim>\<open>get_existing_token\<close> then returns \<^verbatim>\<open>None\<close> for every name.
\<close>

theorem get_tokens_never_fails:
  assumes "tokens_file w = Unreadable \<or> tokens_file w = Unparseable"
  shows "fst (get_tokens w) = PDict [] \<and> (\<forall>name. fst (get_existing_token name w) = Ret PNone)"
  using assms
  by (auto simp: get_tokens_def get_existing_token_def is_valid_def time_time_def dict_get_def
        dict_get_default_def emit_def)

text \<open>C8 at a missing file and at a corrupt file.\<close>

theorem get_tokens_never_fails_witness:
  "tokens_file (quiet_world 0) = Unreadable
   \<and> fst (get_tokens (quiet_world 0)) = PDict []
   \<and> fst (get_existing_token ''mytoken'' (quiet_world 0)) = Ret PNone
   \<and> tokens_file ((quiet_world 0)\<lparr>tokens_file := Unparseable\<rparr>) = Unparseable
   \<and> fst (get_tokens ((quiet_world 0)\<lparr>tokens_file := Unparseable\<rparr>)) = PDict []
   \<and> fst (get_existing_token ''mytoken'' ((quiet_world 0)\<lparr>tokens_file := Unparseable\<rparr>)) = Ret PNone"
proof -
  have a: "tokens_file (quiet_world 0) = Unreadable \<or> tokens_file (quiet_world 0) = Unparseable"
    by (simp add: quiet_world_def)
  have b: "tokens_file ((quiet_world 0)\<lparr>tokens_file := Unparseable\<rparr>) = Unreadable
           \<or> tokens_file ((quiet_world 0)\<lparr>tokens_file := Unparseable\<rparr>) = Unparseable"
    by simp
  from get_tokens_never_fails [OF a] get_tokens_never_fails [OF b]
  show ?thesis by (simp add: quiet_world_def)
qed

section \<open>The service token provider\<close>




section \<open>The request to the token service\<close>

lemma is_user_scope_literal: "is_user_scope = (\<lambda>s. s \<in> {''uid'', ''cn''})"
  by (auto simp: fun_eq_iff is_user_scope_def)

lemma request_params_scope:
  "map_of (request_params realm scope) ''scope'' =
     (if scope = [] then None else Some (PStr (str_join '' '' (filter is_user_scope scope))))"
  by (simp add: request_params_def dict_set_def update_conv' Let_def)

lemma get_new_token_sends:
  "\<exists>u. last (trace (snd (get_new_token realm scope user password url insecure w)))
        = EvHttpGet u (request_params realm scope) (Some (user, password)) (\<not> truthy insecure) None"
  by (auto simp: get_new_token_def get_config_def requests_get_def emit_def
        split: list.splits http_reply.splits option.splits pyval.splits)

text \<open>
  C4, as stated, at the empty list of scopes: the request carries no \<^verbatim>\<open>scope\<close> parameter
  at all, where the claim has the joined (empty) string.
\<close>

theorem scope_parameter_empty_counterexample:
  "map_of (request_params PNone []) ''scope''
     \<noteq> Some (PStr (str_join '' '' (filter (\<lambda>s. s \<in> {''uid'', ''cn''}) [])))
   \<and> last (trace (snd (get_new_token PNone [] (PStr ''jdoe'') (PStr ''secret'')
                         (PStr ''https://token.example.org'') PNone (quiet_world 0))))
       = EvHttpGet (PStr ''https://token.example.org'') [(''json'', PStr ''true'')]
           (Some (PStr ''jdoe'', PStr ''secret'')) True None"
  by (simp add: request_params_def get_new_token_def requests_get_def emit_def quiet_world_def)

text \<open>
  C4, amended: the parameters of the request that \<^verbatim>\<open>get_new_token\<close> sends are
  \<^verbatim>\<open>request_params realm scope\<close>; for a list of scopes that is not empty their \<^verbatim>\<open>scope\<close>
  is the requested scopes that are \<^verbatim>\<open>uid\<close> or \<^verbatim>\<open>cn\<close>, in the order of the request, joined
  by spaces; for the empty list there is no \<^verbatim>\<open>scope\<close> parameter.
\<close>

theorem scope_parameter:
  "(\<exists>u. last (trace (snd (get_new_token realm scope user password url insecure w)))
        = EvHttpGet u (request_params realm scope) (Some (user, password)) (\<not> truthy insecure) None)
   \<and> (scope \<noteq> [] \<longrightarrow>
        map_of (request_params realm scope) ''scope''
          = Some (PStr (str_join '' '' (filter (\<lambda>s. s \<in> {''uid'', ''cn''}) scope))))
   \<and> subseq (filter (\<lambda>s. s \<in> {''uid'', ''cn''}) scope) scope
   \<and> map_of (request_params realm []) ''scope'' = None"
  using get_new_token_sends [of realm scope user password url insecure w]
  by (simp add: request_params_scope is_user_scope_literal)

text \<open>C4 at \<^verbatim>\<open>["uid", "openid", "cn"]\<close>, and at a list with no user scope.\<close>

theorem scope_parameter_witness:
  "[''uid'', ''openid'', ''cn''] \<noteq> []
   \<and> map_of (request_params PNone [''uid'', ''openid'', ''cn'']) ''scope'' = Some (PStr ''uid cn'')
   \<and> map_of (request_params PNone [''openid'']) ''scope'' = Some (PStr '''')"
  using scope_parameter [of PNone "[''uid'', ''openid'', ''cn'']" PNone PNone PNone PNone "quiet_world 0"]
        scope_parameter [of PNone "[''openid'']" PNone PNone PNone PNone "quiet_world 0"]
  by simp

text \<open>What \<^verbatim>\<open>get_new_token\<close> makes of a response.\<close>

lemma get_new_token_reply:
  assumes "http_replies w = Response status body js # rest"
  shows "fst (get_new_token realm scope user password url insecure w) =
     (if status = 401 then Raise (AuthenticationFailed (''Token Service returned '' @ body))
      else if status \<noteq> 200
      then Raise (ServerError (''Token Service returned HTTP status '' @ str_int status @ '': '' @ body))
      else (case js of
              None \<Rightarrow> Raise (ServerError ''Token Service returned invalid JSON data'')
            | Some json_data \<Rightarrow>
                (case json_data of
                   PDict d \<Rightarrow>
                     (if \<not> truthy (dict_get d ''access_token'')
                      then Raise (ServerError ''Token Service returned invalid JSON (access_token missing)'')
                      else Ret json_data)
                 | _ \<Rightarrow> Raise AttributeError)))"
  using assms
  by (simp add: get_new_token_def get_config_def requests_get_def emit_def
        split: option.splits pyval.splits)

text \<open>
  C3, as stated, at a response whose body has the field \<^verbatim>\<open>access_token\<close> with an empty
  value: the field is not missing, and \<^verbatim>\<open>get_new_token\<close> raises \<^verbatim>\<open>ServerError\<close> where the
  claim has it return the parsed body.
\<close>

theorem get_new_token_present_but_empty_counterexample:
  "map_of [(''access_token'', PStr [])] ''access_token'' \<noteq> None
   \<and> fst (get_new_token PNone [] example_user example_password example_url PNone
            (reply_world [Response 200 ''body'' (Some (PDict [(''access_token'', PStr [])]))]))
       = Raise (ServerError ''Token Service returned invalid JSON (access_token missing)'')"
  by (simp add: get_new_token_def requests_get_def emit_def reply_world_def quiet_world_def
        example_url_def dict_get_def dict_get_default_def)

text \<open>
  C3, amended: on a response of the token service, \<^verbatim>\<open>get_new_token\<close> raises
  \<^verbatim>\<open>AuthenticationFailed\<close> exactly when the status is 401; \<^verbatim>\<open>ServerError\<close> with the status
  and the body for any other status but 200; \<^verbatim>\<open>ServerError\<close> when the body cannot be
  parsed; \<^verbatim>\<open>ServerError\<close> when the parsed body is a JSON object whose \<^verbatim>\<open>access_token\<close> is
  missing or falsy; and it returns a parsed JSON object whose \<^verbatim>\<open>access_token\<close> is truthy.
\<close>

theorem get_new_token_outcomes:
  assumes "http_replies w = Response status body js # rest"
      and "r = fst (get_new_token realm scope user password url insecure w)"
  shows "((\<exists>m. r = Raise (AuthenticationFailed m)) \<longleftrightarrow> status = 401)
       \<and> (status = 401 \<longrightarrow> r = Raise (AuthenticationFailed (''Token Service returned '' @ body)))
       \<and> (status \<noteq> 401 \<and> status \<noteq> 200 \<longrightarrow>
            r = Raise (ServerError (''Token Service returned HTTP status '' @ str_int status
                                      @ '': '' @ body)))
       \<and> (status = 200 \<and> js = None \<longrightarrow>
            r = Raise (ServerError ''Token Service returned invalid JSON data''))
       \<and> (\<forall>d. status = 200 \<and> js = Some (PDict d) \<and> \<not> truthy (dict_get d ''access_token'') \<longrightarrow>
            r = Raise (ServerError ''Token Service returned invalid JSON (access_token missing)''))
       \<and> (\<forall>d. status = 200 \<and> js = Some (PDict d) \<and> truthy (dict_get d ''access_token'') \<longrightarrow>
            r = Ret (PDict d))"
  unfolding assms(2) get_new_token_reply [OF assms(1)]
  by (auto split: option.splits pyval.splits)

text \<open>C3 at a response of each kind.\<close>

theorem get_new_token_outcomes_witness:
  "fst (get_new_token PNone [] example_user example_password example_url PNone
          (reply_world [Response 401 ''denied'' None]))
     = Raise (AuthenticationFailed ''Token Service returned denied'')
   \<and> fst (get_new_token PNone [] example_user example_password example_url PNone
          (reply_world [Response 500 ''oops'' None]))
     = Raise (ServerError ''Token Service returned HTTP status 500: oops'')
   \<and> fst (get_new_token PNone [] example_user example_password example_url PNone
          (reply_world [Response 200 ''<html>'' None]))
     = Raise (ServerError ''Token Service returned invalid JSON data'')
   \<and> fst (get_new_token PNone [] example_user example_password example_url PNone
          (reply_world [Response 200 ''{}'' (Some (PDict []))]))
     = Raise (ServerError ''Token Service returned invalid JSON (access_token missing)'')
   \<and> fst (get_new_token PNone [] example_user example_password example_url PNone
          (reply_world [Response 200 ''body'' (Some (PDict token_body))]))
     = Ret (PDict token_body)"
proof -
  have h: "\<And>x. http_replies (reply_world [x]) = x # []"
    by (simp add: reply_world_def)
  have s: "str_int 500 = ''500''"
    by (simp add: str_int_def)
  have t: "truthy (dict_get token_body ''access_token'')" "\<not> truthy (dict_get [] ''access_token'')"
    by (simp_all add: token_body_def dict_get_def dict_get_default_def)
  from get_new_token_outcomes [of "reply_world [Response 401 ''denied'' None]" 401 "''denied''" None "[]" _ PNone "[]" example_user example_password example_url PNone, OF h refl]
       get_new_token_outcomes [of "reply_world [Response 500 ''oops'' None]" 500 "''oops''" None "[]" _ PNone "[]" example_user example_password example_url PNone, OF h refl]
       get_new_token_outcomes [of "reply_world [Response 200 ''<html>'' None]" 200 "''<html>''" None "[]" _ PNone "[]" example_user example_password example_url PNone, OF h refl]
       get_new_token_outcomes [of "reply_world [Response 200 ''{}'' (Some (PDict []))]" 200 "''{}''" "Some (PDict [])" "[]" _ PNone "[]" example_user example_password example_url PNone, OF h refl]
       get_new_token_outcomes [of "reply_world [Response 200 ''body'' (Some (PDict token_body))]" 200 "''body''" "Some (PDict token_body)" "[]" _ PNone "[]" example_user example_password example_url PNone, OF h refl]
       s t
  show ?thesis by simp
qed

lemma get_new_token_returns:
  assumes "get_new_token realm scope user password url insecure w = (Ret v, w')"
  shows "\<exists>d t. v = PDict d \<and> map_of d ''access_token'' = Some t \<and> truthy t \<and> t \<noteq> PStr []"
  using assms
  by (auto simp: get_new_token_def get_config_def requests_get_def emit_def dict_get_def
        dict_get_default_def
        split: if_splits list.splits http_reply.splits option.splits pyval.splits)

text \<open>
  C10: a record that \<^verbatim>\<open>get_new_token\<close> returns is a JSON object with a truthy
  \<^verbatim>\<open>access_token\<close>, which is not the empty string; a response whose \<^verbatim>\<open>access_token\<close> is
  falsy, missing or not, raises \<^verbatim>\<open>ServerError\<close>.
\<close>

theorem falsy_access_token_rejected:
  "(\<forall>v w'. get_new_token realm scope user password url insecure w = (Ret v, w') \<longrightarrow>
      (\<exists>d t. v = PDict d \<and> map_of d ''access_token'' = Some t \<and> truthy t \<and> t \<noteq> PStr []))
   \<and> (\<forall>body d rest. http_replies w = Response 200 body (Some (PDict d)) # rest
                       \<and> \<not> truthy (dict_get d ''access_token'') \<longrightarrow>
        fst (get_new_token realm scope user password url insecure w)
          = Raise (ServerError ''Token Service returned invalid JSON (access_token missing)''))"
  using get_new_token_returns [of realm scope user password url insecure w]
  by (auto simp: get_new_token_reply)

text \<open>C10 at a good response, at an empty token and at a null token.\<close>

theorem falsy_access_token_rejected_witness:
  "fst (get_new_token PNone [] example_user example_password example_url PNone
          (reply_world [Response 200 ''body'' (Some (PDict token_body))]))
     = Ret (PDict token_body)
   \<and> map_of token_body ''access_token'' = Some (PStr ''abc'')
   \<and> fst (get_new_token PNone [] example_user example_password example_url PNone
          (reply_world [Response 200 ''body'' (Some (PDict [(''access_token'', PStr [])]))]))
     = Raise (ServerError ''Token Service returned invalid JSON (access_token missing)'')
   \<and> fst (get_new_token PNone [] example_user example_password example_url PNone
          (reply_world [Response 200 ''body'' (Some (PDict [(''access_token'', PNone)]))]))
     = Raise (ServerError ''Token Service returned invalid JSON (access_token missing)'')"
proof -
  have h: "\<And>x. http_replies (reply_world [x]) = x # []"
    by (simp add: reply_world_def)
  have okf: "fst (get_new_token PNone [] example_user example_password example_url PNone
              (reply_world [Response 200 ''body'' (Some (PDict token_body))]))
            = Ret (PDict token_body)"
    by (simp add: get_new_token_def requests_get_def emit_def reply_world_def quiet_world_def
          example_url_def token_body_def dict_get_def dict_get_default_def)
  have ok: "get_new_token PNone [] example_user example_password example_url PNone
              (reply_world [Response 200 ''body'' (Some (PDict token_body))])
            = (Ret (PDict token_body),
               snd (get_new_token PNone [] example_user example_password example_url PNone
                      (reply_world [Response 200 ''body'' (Some (PDict token_body))])))"
    by (simp add: prod_eq_iff okf)
  have f: "\<not> truthy (dict_get [(''access_token'', PStr [])] ''access_token'')"
          "\<not> truthy (dict_get [(''access_token'', PNone)] ''access_token'')"
    by (simp_all add: dict_get_def dict_get_default_def)
  from falsy_access_token_rejected [of PNone "[]" example_user example_password example_url PNone
         "reply_world [Response 200 ''body'' (Some (PDict token_body))]"] ok
  have a: "\<exists>d t. PDict token_body = PDict d \<and> map_of d ''access_token'' = Some t \<and> truthy t \<and> t \<noteq> PStr []"
    by blast
  from falsy_access_token_rejected [of PNone "[]" example_user example_password example_url PNone
         "reply_world [Response 200 ''body'' (Some (PDict [(''access_token'', PStr [])]))]"] h f
  have b: "fst (get_new_token PNone [] example_user example_password example_url PNone
          (reply_world [Response 200 ''body'' (Some (PDict [(''access_token'', PStr [])]))]))
     = Raise (ServerError ''Token Service returned invalid JSON (access_token missing)'')"
    by blast
  from falsy_access_token_rejected [of PNone "[]" example_user example_password example_url PNone
         "reply_world [Response 200 ''body'' (Some (PDict [(''access_token'', PNone)]))]"] h f
  have c: "fst (get_new_token PNone [] example_user example_password example_url PNone
          (reply_world [Response 200 ''body'' (Some (PDict [(''access_token'', PNone)]))]))
     = Raise (ServerError ''Token Service returned invalid JSON (access_token missing)'')"
    by blast
  have m: "map_of token_body ''access_token'' = Some (PStr ''abc'')"
    by (simp add: token_body_def)
  from a b c okf m show ?thesis
    by simp
qed

section \<open>Storing a token\<close>

lemma get_tokens_world: "snd (get_tokens w) = emit EvReadTokens w"
  by (simp add: get_tokens_def Let_def)

lemma store_token_saves:
  assumes "tokens_writable w" and "fst (get_tokens w) = PDict d"
  shows "fst (store_token name (PDict r) w)
           = Ret (PDict (dict_set r ''creation_time'' (PFloat (Finite (clock w (ticks w))))))"
    and "tokens_file (snd (store_token name (PDict r) w))
           = Content (PDict (dict_set d name
               (PDict (dict_set r ''creation_time'' (PFloat (Finite (clock w (ticks w))))))))"
proof -
  have g: "get_tokens w = (PDict d, emit EvReadTokens w)"
    using assms(2) by (simp add: prod_eq_iff get_tokens_world)
  show "fst (store_token name (PDict r) w)
           = Ret (PDict (dict_set r ''creation_time'' (PFloat (Finite (clock w (ticks w))))))"
    using assms(1) by (simp add: store_token_def g time_time_def emit_def Let_def)
  show "tokens_file (snd (store_token name (PDict r) w))
           = Content (PDict (dict_set d name
               (PDict (dict_set r ''creation_time'' (PFloat (Finite (clock w (ticks w))))))))"
    using assms(1) by (simp add: store_token_def g time_time_def emit_def Let_def)
qed

lemma get_tokens_content:
  "tokens_file w = Content (PDict d) \<Longrightarrow> d \<noteq> [] \<Longrightarrow> fst (get_tokens w) = PDict d"
  by (simp add: get_tokens_def)

lemma dict_set_nonempty: "dict_set d k v \<noteq> []"
  by (cases d) (simp_all add: dict_set_def)

text \<open>
  C7: when the token file can be written and the cache that is loaded is a dictionary (the
  empty one for a missing or corrupt file), \<^verbatim>\<open>store_token name tok\<close> returns, and the
  cache loaded afterwards has under \<^verbatim>\<open>name\<close> the record \<^verbatim>\<open>tok\<close> with its \<^verbatim>\<open>creation_time\<close>
  set to the time of the save and every other field as it was; the entries under all other
  names are those of the cache before.
\<close>

theorem store_token_round_trip:
  assumes "tokens_writable w"
      and "fst (get_tokens w) = PDict cache"
      and "now = clock w (ticks w)"
      and "store_token name (PDict tok) w = (outcome, w')"
  shows "outcome = Ret (PDict (dict_set tok ''creation_time'' (PFloat (Finite now))))
       \<and> (\<exists>cache' stored.
             fst (get_tokens w') = PDict cache'
           \<and> map_of cache' name = Some (PDict stored)
           \<and> dict_get cache' name = PDict stored
           \<and> map_of stored = (map_of tok)(''creation_time'' \<mapsto> PFloat (Finite now))
           \<and> (\<forall>other. other \<noteq> name \<longrightarrow> map_of cache' other = map_of cache other))"
proof -
  let ?stored = "dict_set tok ''creation_time'' (PFloat (Finite now))"
  let ?cache' = "dict_set cache name (PDict ?stored)"
  have o: "outcome = Ret (PDict ?stored)"
    using store_token_saves(1) [OF assms(1,2), of name tok] assms(3,4) by simp
  have f: "tokens_file w' = Content (PDict ?cache')"
    using store_token_saves(2) [OF assms(1,2), of name tok] assms(3,4) by simp
  have l: "fst (get_tokens w') = PDict ?cache'"
    using f by (rule get_tokens_content) (rule dict_set_nonempty)
  have "map_of ?cache' name = Some (PDict ?stored)"
    by (simp add: dict_set_def update_conv')
  moreover have "dict_get ?cache' name = PDict ?stored"
    by (simp add: dict_get_def dict_get_default_def dict_set_def update_conv')
  moreover have "map_of ?stored = (map_of tok)(''creation_time'' \<mapsto> PFloat (Finite now))"
    by (simp add: dict_set_def update_conv')
  moreover have "\<forall>other. other \<noteq> name \<longrightarrow> map_of ?cache' other = map_of cache other"
    by (simp add: dict_set_def update_conv')
  ultimately show ?thesis
    using o l by blast
qed

text \<open>C7 at a cache with one entry, saving under a new name at time 5000.\<close>

theorem store_token_round_trip_witness:
  "tokens_writable (cached_world 5000 [(''old'', PDict (hour_token 1000))])
   \<and> fst (get_tokens (cached_world 5000 [(''old'', PDict (hour_token 1000))]))
       = PDict [(''old'', PDict (hour_token 1000))]
   \<and> fst (store_token ''new'' (PDict token_body) (cached_world 5000 [(''old'', PDict (hour_token 1000))]))
       = Ret (PDict (token_body @ [(''creation_time'', PFloat (Finite 5000))]))
   \<and> fst (get_tokens (snd (store_token ''new'' (PDict token_body)
                              (cached_world 5000 [(''old'', PDict (hour_token 1000))]))))
       = PDict [(''old'', PDict (hour_token 1000)),
                (''new'', PDict (token_body @ [(''creation_time'', PFloat (Finite 5000))]))]"
proof -
  let ?w = "cached_world 5000 [(''old'', PDict (hour_token 1000))]"
  have a: "tokens_writable ?w"
    by (simp add: cached_world_def quiet_world_def)
  have b: "fst (get_tokens ?w) = PDict [(''old'', PDict (hour_token 1000))]"
    by (simp add: cached_world_def quiet_world_def get_tokens_def Let_def)
  have c: "5000 = clock ?w (ticks ?w)"
    by (simp add: cached_world_def quiet_world_def)
  have d: "store_token ''new'' (PDict token_body) ?w
             = (fst (store_token ''new'' (PDict token_body) ?w),
                snd (store_token ''new'' (PDict token_body) ?w))"
    by simp
  have e: "dict_set token_body ''creation_time'' (PFloat (Finite 5000))
             = token_body @ [(''creation_time'', PFloat (Finite 5000))]"
    by (simp add: dict_set_def token_body_def)
  have f: "fst (get_tokens (snd (store_token ''new'' (PDict token_body) ?w)))
       = PDict [(''old'', PDict (hour_token 1000)),
                (''new'', PDict (token_body @ [(''creation_time'', PFloat (Finite 5000))]))]"
    by (simp add: store_token_def get_tokens_def time_time_def emit_def cached_world_def
          quiet_world_def dict_set_def token_body_def Let_def)
  from store_token_round_trip [OF a b c d] a b e f
  show ?thesis by simp
qed

section \<open>The non-interactive entry point\<close>

text \<open>What a miss of the cache and the service token provider leave behind.\<close>

lemma is_valid_world: "snd (is_valid t w) = w\<lparr>ticks := Suc (ticks w)\<rparr>"
  by (simp add: is_valid_def time_time_def
        split: pyval.splits option.splits sum.splits num_error.splits)

lemma get_existing_token_world:
  assumes "fst (get_existing_token name w) = Ret v"
  shows "snd (get_existing_token name w) = (emit EvReadTokens w)\<lparr>ticks := Suc (ticks w)\<rparr>"
proof -
  obtain data where g: "get_tokens w = (data, emit EvReadTokens w)"
    by (metis prod.collapse get_tokens_world)
  show ?thesis
  proof (cases data)
    case (PDict d)
    obtain r w1 where i: "is_valid (dict_get d name) (emit EvReadTokens w) = (r, w1)"
      by fastforce
    have "w1 = (emit EvReadTokens w)\<lparr>ticks := Suc (ticks w)\<rparr>"
      using is_valid_world [of "dict_get d name" "emit EvReadTokens w"] i
      by (simp add: emit_def)
    then show ?thesis
      by (cases r) (simp_all add: get_existing_token_def g PDict i Let_def)
  qed (use assms in \<open>simp_all add: get_existing_token_def g\<close>)
qed

lemma get_service_token_eq:
  "get_service_token name scopes w =
     (if service_manage_fails w name
      then (Raise OtherTokensError, emit (EvManage name scopes) w)
      else ((case service_tokens w name of
               ServiceToken t \<Rightarrow> Ret t
             | ServiceConfigurationMissing \<Rightarrow> Ret PNone
             | ServiceCredentialsUnreadable \<Rightarrow> Ret PNone
             | ServiceOtherFailure \<Rightarrow> Raise OtherTokensError),
            emit (EvServiceGet name) (emit (EvManage name scopes) w)))"
  by (simp add: get_service_token_def tokens_get_def tokens_manage_def emit_def
        split: service_outcome.splits)

lemma service_miss_manages:
  "returns_falsy (fst (get_service_token name scopes w)) \<Longrightarrow> \<not> service_manage_fails w name"
  by (auto simp: get_service_token_eq)

lemma get_existing_token_miss:
  assumes "fst (get_existing_token name w) = Ret PNone"
  shows "get_existing_token name w = (Ret PNone, (emit EvReadTokens w)\<lparr>ticks := Suc (ticks w)\<rparr>)"
  using assms get_existing_token_world [OF assms] by (simp add: prod_eq_iff)

lemma get_token_no_user:
  assumes "fst (get_existing_token name w) = Ret PNone"
      and "returns_falsy (fst (get_service_token name scopes w))"
      and "\<not> truthy (dict_get (config_store w) ''user'')"
      and "\<not> truthy (fst (os_getenv ''ZIGN_USER'' w))"
      and "\<not> truthy (fst (os_getenv ''USER'' w))"
  shows \<open>get_token name scopes w =
           (Raise (ConfigurationError
              (''Missing OAuth username. '' @
               ''Either set "user" in configuration file or ZIGN_USER environment variable.'')),
            w\<lparr>ticks := Suc (ticks w),
              trace := trace w @ [EvReadTokens, EvManage name scopes, EvServiceGet name,
                                  EvLoadConfig, EvGetEnv ''ZIGN_USER'', EvGetEnv ''USER'']\<rparr>)\<close>
proof -
  note e = get_existing_token_miss [OF assms(1)]
  show ?thesis
    using assms(2,3,4,5) service_miss_manages [OF assms(2)]
    by (cases "service_tokens w name")
       (simp_all add: get_token_def e get_service_token_eq get_config_def os_getenv_def emit_def)
qed

lemma get_token_no_url:
  assumes "fst (get_existing_token name w) = Ret PNone"
      and "returns_falsy (fst (get_service_token name scopes w))"
      and "truthy (dict_get (config_store w) ''user'') \<or> truthy (fst (os_getenv ''ZIGN_USER'' w))
           \<or> truthy (fst (os_getenv ''USER'' w))"
      and "\<not> truthy (dict_get (config_store w) ''url'')"
  shows \<open>get_token name scopes w =
           (Raise (ConfigurationError
              (''Missing OAuth access token service URL. '' @
               ''Please set "url" in configuration file.'')),
            w\<lparr>ticks := Suc (ticks w),
              trace := trace w @ [EvReadTokens, EvManage name scopes, EvServiceGet name, EvLoadConfig]
                @ (if truthy (dict_get (config_store w) ''user'') then []
                   else if truthy (fst (os_getenv ''ZIGN_USER'' w)) then [EvGetEnv ''ZIGN_USER'']
                   else [EvGetEnv ''ZIGN_USER'', EvGetEnv ''USER''])\<rparr>)\<close>
proof -
  note e = get_existing_token_miss [OF assms(1)]
  show ?thesis
    using assms(2,3,4) service_miss_manages [OF assms(2)]
    by (cases "service_tokens w name")
       (auto simp: get_token_def e get_service_token_eq get_config_def os_getenv_def emit_def)
qed

text \<open>
  C6: when \<^verbatim>\<open>get_token\<close> finds no valid cached token and no service token, it raises
  \<^verbatim>\<open>ConfigurationError\<close> if none of the configuration, \<^verbatim>\<open>ZIGN_USER\<close> and \<^verbatim>\<open>USER\<close> gives a
  user, tried in this order, and raises \<^verbatim>\<open>ConfigurationError\<close> if a user is found and the
  configuration has no URL. In both cases the calls made are among reading the token file,
  the service token provider, loading the configuration and the two variables of the user:
  no password is looked up, no request is sent, nothing is asked and nothing is stored.
\<close>

theorem get_token_configuration_errors:
  assumes "fst (get_existing_token name w) = Ret PNone"
      and "returns_falsy (fst (get_service_token name scopes w))"
      and "from_config = dict_get (config_store w) ''user''"
      and "from_zign_user = fst (os_getenv ''ZIGN_USER'' w)"
      and "from_os_user = fst (os_getenv ''USER'' w)"
      and "get_token name scopes w = (outcome, w')"
  shows \<open>(\<not> truthy from_config \<and> \<not> truthy from_zign_user \<and> \<not> truthy from_os_user \<longrightarrow>
            outcome = Raise (ConfigurationError
              (''Missing OAuth username. '' @
               ''Either set "user" in configuration file or ZIGN_USER environment variable.''))
          \<and> trace w' = trace w @ [EvReadTokens, EvManage name scopes, EvServiceGet name,
                                    EvLoadConfig, EvGetEnv ''ZIGN_USER'', EvGetEnv ''USER''])
       \<and> ((truthy from_config \<or> truthy from_zign_user \<or> truthy from_os_user)
            \<and> \<not> truthy (dict_get (config_store w) ''url'') \<longrightarrow>
            outcome = Raise (ConfigurationError
              (''Missing OAuth access token service URL. '' @
               ''Please set "url" in configuration file.''))
          \<and> (\<exists>evs. trace w' = trace w @ evs
                  \<and> set evs \<subseteq> {EvReadTokens, EvManage name scopes, EvServiceGet name,
                                EvLoadConfig, EvGetEnv ''ZIGN_USER'', EvGetEnv ''USER''}))
       \<and> ((\<not> truthy from_config \<and> \<not> truthy from_zign_user \<and> \<not> truthy from_os_user)
            \<or> \<not> truthy (dict_get (config_store w) ''url'') \<longrightarrow>
            http_replies w' = http_replies w \<and> prompt_answers w' = prompt_answers w
          \<and> keyring_db w' = keyring_db w \<and> tokens_file w' = tokens_file w)\<close>
proof -
  have a: "outcome = fst (get_token name scopes w)" and b: "w' = snd (get_token name scopes w)"
    using assms(6) by simp_all
  let ?any = "truthy (dict_get (config_store w) ''user'') \<or> truthy (fst (os_getenv ''ZIGN_USER'' w))
              \<or> truthy (fst (os_getenv ''USER'' w))"
  show ?thesis
  proof (cases ?any)
    case False
    then have "\<not> truthy (dict_get (config_store w) ''user'')"
      and "\<not> truthy (fst (os_getenv ''ZIGN_USER'' w))"
      and "\<not> truthy (fst (os_getenv ''USER'' w))"
      by simp_all
    from get_token_no_user [OF assms(1,2) this] False
    show ?thesis
      unfolding a b assms(3,4,5) by simp
  next
    case True
    show ?thesis
    proof (cases "truthy (dict_get (config_store w) ''url'')")
      case True
      with \<open>?any\<close> show ?thesis
        unfolding a b assms(3,4,5) by blast
    next
      case False
      from get_token_no_url [OF assms(1,2) \<open>?any\<close> False] \<open>?any\<close> False
      show ?thesis
        unfolding a b assms(3,4,5) by auto
    qed
  qed
qed

text \<open>C6 where nothing is configured, and where only \<^verbatim>\<open>USER\<close> is set.\<close>

theorem get_token_configuration_errors_witness:
  \<open>fst (get_existing_token ''mytoken'' (quiet_world 0)) = Ret PNone
   \<and> returns_falsy (fst (get_service_token ''mytoken'' [''uid''] (quiet_world 0)))
   \<and> fst (get_token ''mytoken'' [''uid''] (quiet_world 0))
       = Raise (ConfigurationError
           ''Missing OAuth username. Either set "user" in configuration file or ZIGN_USER environment variable.'')
   \<and> trace (snd (get_token ''mytoken'' [''uid''] (quiet_world 0)))
       = [EvReadTokens, EvManage ''mytoken'' [''uid''], EvServiceGet ''mytoken'',
          EvLoadConfig, EvGetEnv ''ZIGN_USER'', EvGetEnv ''USER'']
   \<and> fst (os_getenv ''USER'' os_user_world) = PStr ''jdoe''
   \<and> fst (get_token ''mytoken'' [''uid''] os_user_world)
       = Raise (ConfigurationError
           ''Missing OAuth access token service URL. Please set "url" in configuration file.'')
   \<and> http_replies (snd (get_token ''mytoken'' [''uid''] os_user_world)) = []\<close>
proof -
  have q: "fst (get_existing_token ''mytoken'' (quiet_world 0)) = Ret PNone"
          "returns_falsy (fst (get_service_token ''mytoken'' [''uid''] (quiet_world 0)))"
          "\<not> truthy (dict_get (config_store (quiet_world 0)) ''user'')"
          "\<not> truthy (fst (os_getenv ''ZIGN_USER'' (quiet_world 0)))"
          "\<not> truthy (fst (os_getenv ''USER'' (quiet_world 0)))"
          "trace (quiet_world 0) = []"
    by (simp_all add: get_existing_token_def get_tokens_def is_valid_def time_time_def
          get_service_token_eq os_getenv_def dict_get_def dict_get_default_def emit_def
          quiet_world_def)
  have u: "fst (get_existing_token ''mytoken'' os_user_world) = Ret PNone"
          "returns_falsy (fst (get_service_token ''mytoken'' [''uid''] os_user_world))"
          "fst (os_getenv ''USER'' os_user_world) = PStr ''jdoe''"
          "\<not> truthy (dict_get (config_store os_user_world) ''url'')"
          "http_replies os_user_world = []"
    by (simp_all add: get_existing_token_def get_tokens_def is_valid_def time_time_def
          get_service_token_eq os_getenv_def dict_get_def dict_get_default_def emit_def
          quiet_world_def os_user_world_def)
  have p: "\<And>x. x = (fst x, snd x)"
    by simp
  from get_token_configuration_errors [OF q(1,2) refl refl refl p]
       get_token_configuration_errors [OF u(1,2) refl refl refl p] q u
  show ?thesis
    by simp
qed

section \<open>Authentication failures\<close>







lemma url_prompt_loop_skipped:
  "\<not> prompt \<or> truthy url \<Longrightarrow> url_prompt_loop insecure prompt url config w = (Ret (url, config), w)"
  by (subst url_prompt_loop.simps) auto

lemma get_named_token_reaches:
  assumes "name \<noteq> [] \<and> \<not> refresh \<longrightarrow> fst (get_existing_token name w) = Ret PNone"
      and "name \<noteq> [] \<and> \<not> truthy realm \<longrightarrow> returns_falsy (fst (get_service_token name scope w))"
  shows "get_named_token scope realm name user password url insecure refresh use_keyring prompt w =
           request_named_token scope realm name user password url insecure use_keyring prompt
             (after_misses name scope realm refresh w)"
proof -
  have e: "name \<noteq> [] \<and> \<not> refresh \<Longrightarrow>
             get_existing_token name w = (Ret PNone, (emit EvReadTokens w)\<lparr>ticks := Suc (ticks w)\<rparr>)"
    using assms(1) by (simp add: get_existing_token_miss)
  have m: "name \<noteq> [] \<and> \<not> truthy realm \<Longrightarrow> \<not> service_manage_fails w name"
    using assms(2) by (simp add: service_miss_manages)
  show ?thesis
    using assms(2) m
    by (cases "service_tokens w name")
       (auto simp: get_named_token_def after_misses_def e get_service_token_eq emit_def)
qed


lemma after_misses_frame:
  "http_replies (after_misses name scope realm refresh w) = http_replies w"
  "prompt_answers (after_misses name scope realm refresh w) = prompt_answers w"
  "config_store (after_misses name scope realm refresh w) = config_store w"
  "keyring_db (after_misses name scope realm refresh w) = keyring_db w"
  "tokens_file (after_misses name scope realm refresh w) = tokens_file w"
  by (simp_all add: after_misses_def emit_def Let_def)











section \<open>Writing the configuration back\<close>

text \<open>Every call only adds to the trace.\<close>

lemma trace_emit: "trace (emit e w) = trace w @ [e]"
  by (simp add: emit_def)

lemma prefix_trace_emit: "prefix (trace w) (trace (emit e w))"
  by (simp add: emit_def)

lemma get_new_token_trace:
  "prefix (trace w) (trace (snd (get_new_token realm scope user password url insecure w)))"
  by (auto simp: get_new_token_def get_config_def requests_get_def emit_def prefix_def
        split: list.splits http_reply.splits option.splits pyval.splits)

lemma click_prompt_trace: "prefix (trace w) (trace (snd (click_prompt k w)))"
  by (simp add: click_prompt_def emit_def split: list.splits)

lemma store_token_trace: "prefix (trace w) (trace (snd (store_token name result w)))"
  by (auto simp: store_token_def get_tokens_def time_time_def emit_def Let_def prefix_def
        split: pyval.splits file_state.splits)

lemma token_request_loop_trace:
  "prefix (trace w) (trace (snd (token_request_loop realm scope user url insecure prompt password w)))"
proof (induction realm scope user url insecure prompt password w rule: token_request_loop.induct)
  case (1 realm scope user url insecure prompt password w)
  obtain x w1 where a: "(if \<not> truthy password \<and> prompt
            then (case click_prompt (PasswordPrompt user) w of
                    (None, w') \<Rightarrow> (None, w')
                  | (Some a, w') \<Rightarrow> (Some (PStr a), w'))
            else (Some password, w)) = (x, w1)"
    by fastforce
  have p1: "prefix (trace w) (trace w1)"
    using a click_prompt_trace [of w "PasswordPrompt user"]
    by (auto split: if_splits prod.splits option.splits)
  show ?case
  proof (cases x)
    case None
    then show ?thesis
      using a p1 by (subst token_request_loop.simps) simp
  next
    case (Some password1)
    obtain r w2 where b: "get_new_token realm scope user password1 url insecure w1 = (r, w2)"
      by fastforce
    have p2: "prefix (trace w) (trace w2)"
      using p1 get_new_token_trace [of w1 realm scope user password1 url insecure] b
      by (metis prefix_order.trans snd_conv)
    show ?thesis
    proof (cases r)
      case (Ret result)
      then show ?thesis
        using a Some b p2 by (subst token_request_loop.simps) simp
    next
      case Blocked
      then show ?thesis
        using a Some b p2 by (subst token_request_loop.simps) simp
    next
      case (Raise e)
      show ?thesis
      proof (cases "prompt \<and> (\<exists>m. e = AuthenticationFailed m)")
        case False
        then show ?thesis
          using a Some b p2 Raise
          by (subst token_request_loop.simps) (auto split: exn.splits)
      next
        case True
        then obtain m where e: "e = AuthenticationFailed m" and pr: prompt
          by blast
        let ?w3 = "emit (EvInfo ''Please check your username and password and try again.'')
                     (emit (EvError (''Authentication failed: '' @ m)) w2)"
        have ih: "prefix (trace ?w3)
                    (trace (snd (token_request_loop realm scope user url insecure prompt PNone ?w3)))"
          using "1.IH" [OF a [symmetric] Some b [symmetric] Raise e pr] .
        have "prefix (trace w) (trace ?w3)"
          using p2 by (auto simp: emit_def prefix_def)
        from this ih have "prefix (trace w)
                    (trace (snd (token_request_loop realm scope user url insecure prompt PNone ?w3)))"
          by (rule prefix_order.trans)
        then show ?thesis
          using a Some b Raise e pr by (subst token_request_loop.simps) simp
      qed
    qed
  qed
qed

lemma request_named_token_stores_config:
  assumes "url_prompt_loop insecure prompt
             (if truthy url then url else dict_get (config_store w) ''url'') (config_store w)
             (emit EvLoadConfig w) = (Ret (url', config'), w')"
  shows "\<exists>later. trace (snd (request_named_token scope realm name user password url insecure
                                 use_keyring prompt w))
                   = trace w' @ EvStoreConfig config' # later"
proof -
  define w2 where "w2 = store_config config' w'"
  obtain password1 w3 where a: "(if truthy password then (password, w2)
                               else keyring_get_password user w2) = (password1, w3)"
    by fastforce
  obtain r w4 where b: "token_request_loop realm scope user url' insecure prompt password1 w3 = (r, w4)"
    by fastforce
  have t2: "trace w2 = trace w' @ [EvStoreConfig config']"
    by (simp add: w2_def store_config_def emit_def)
  have p3: "prefix (trace w2) (trace w3)"
    using a by (auto simp: keyring_get_password_def emit_def split: if_splits)
  have p4: "prefix (trace w3) (trace w4)"
    using token_request_loop_trace [of w3 realm scope user url' insecure prompt password1] b
    by simp
  have u: "request_named_token scope realm name user password url insecure use_keyring prompt w
             = (case r of
                  Ret (result, password2) \<Rightarrow>
                    (let w5 = (if truthy result \<and> use_keyring
                               then keyring_set_password user password2 w4 else w4)
                     in if name \<noteq> [] then store_token name result w5 else (Ret result, w5))
                | Raise e \<Rightarrow> (Raise e, w4)
                | Blocked \<Rightarrow> (Blocked, w4))"
    by (simp add: request_named_token_def get_config_def assms w2_def [symmetric] a b
          split: res.splits)
  have p5: "prefix (trace w4)
              (trace (snd (request_named_token scope realm name user password url insecure
                             use_keyring prompt w)))"
  proof (cases r)
    case (Ret x)
    obtain result password2 where x: "x = (result, password2)"
      by fastforce
    define w5 where "w5 = (if truthy result \<and> use_keyring
                           then keyring_set_password user password2 w4 else w4)"
    have q: "prefix (trace w4) (trace w5)"
      by (simp add: w5_def keyring_set_password_def emit_def)
    have "prefix (trace w5) (trace (snd (store_token name result w5)))"
      by (rule store_token_trace)
    with q have "prefix (trace w4) (trace (snd (store_token name result w5)))"
      by (rule prefix_order.trans)
    with q show ?thesis
      unfolding u Ret x by (simp add: w5_def [symmetric] Let_def)
  qed (simp_all add: u)
  from p3 p4 p5 have "prefix (trace w2)
              (trace (snd (request_named_token scope realm name user password url insecure
                             use_keyring prompt w)))"
    by (meson prefix_order.trans)
  then show ?thesis
    unfolding t2 by (auto simp: prefix_def)
qed

lemma after_misses_trace:
  "\<exists>before. trace (after_misses name scope realm refresh w) = trace w @ before
            \<and> set before \<subseteq> {EvReadTokens, EvManage name scope, EvServiceGet name}"
  by (auto simp: after_misses_def emit_def Let_def)

text \<open>
  C9: when neither the cache nor the service token provider ends \<^verbatim>\<open>get_named_token\<close> early
  and the resolution of the URL comes to an end, \<^verbatim>\<open>store_config\<close> is called with the
  configuration as the resolution left it, right after the resolution, whatever happens
  afterwards. When the URL is given, or configured, or there is no prompt, the
  configuration that was loaded is stored unchanged, right after it was loaded.
\<close>

theorem configuration_always_stored:
  "((name \<noteq> [] \<and> \<not> refresh \<longrightarrow> fst (get_existing_token name w) = Ret PNone)
      \<and> (name \<noteq> [] \<and> \<not> truthy realm \<longrightarrow> returns_falsy (fst (get_service_token name scope w)))
      \<and> url_prompt_loop insecure prompt
           (if truthy url then url else dict_get (config_store w) ''url'') (config_store w)
           (emit EvLoadConfig (after_misses name scope realm refresh w)) = (Ret (url', config'), w')
      \<longrightarrow> (\<exists>later. trace (snd (get_named_token scope realm name user password url insecure refresh
                                  use_keyring prompt w))
                     = trace w' @ EvStoreConfig config' # later))
   \<and> ((name \<noteq> [] \<and> \<not> refresh \<longrightarrow> fst (get_existing_token name w) = Ret PNone)
      \<and> (name \<noteq> [] \<and> \<not> truthy realm \<longrightarrow> returns_falsy (fst (get_service_token name scope w)))
      \<and> (\<not> prompt \<or> truthy url \<or> truthy (dict_get (config_store w) ''url''))
      \<longrightarrow> (\<exists>before later.
             trace (snd (get_named_token scope realm name user password url insecure refresh
                           use_keyring prompt w))
               = trace w @ before @ EvLoadConfig # EvStoreConfig (config_store w) # later
           \<and> set before \<subseteq> {EvReadTokens, EvManage name scope, EvServiceGet name}))"
proof (intro conjI impI)
  assume a: "(name \<noteq> [] \<and> \<not> refresh \<longrightarrow> fst (get_existing_token name w) = Ret PNone)
      \<and> (name \<noteq> [] \<and> \<not> truthy realm \<longrightarrow> returns_falsy (fst (get_service_token name scope w)))
      \<and> url_prompt_loop insecure prompt
           (if truthy url then url else dict_get (config_store w) ''url'') (config_store w)
           (emit EvLoadConfig (after_misses name scope realm refresh w)) = (Ret (url', config'), w')"
  then have r: "get_named_token scope realm name user password url insecure refresh use_keyring prompt w
             = request_named_token scope realm name user password url insecure use_keyring prompt
                 (after_misses name scope realm refresh w)"
    by (intro get_named_token_reaches) simp_all
  from a have "url_prompt_loop insecure prompt
           (if truthy url then url else dict_get (config_store w) ''url'') (config_store w)
           (emit EvLoadConfig (after_misses name scope realm refresh w)) = (Ret (url', config'), w')"
    by blast
  then have "url_prompt_loop insecure prompt
           (if truthy url then url
            else dict_get (config_store (after_misses name scope realm refresh w)) ''url'')
           (config_store (after_misses name scope realm refresh w))
           (emit EvLoadConfig (after_misses name scope realm refresh w)) = (Ret (url', config'), w')"
    by (simp only: after_misses_frame)
  then show "\<exists>later. trace (snd (get_named_token scope realm name user password url insecure refresh
                                  use_keyring prompt w))
                     = trace w' @ EvStoreConfig config' # later"
    unfolding r by (rule request_named_token_stores_config)
next
  assume a: "(name \<noteq> [] \<and> \<not> refresh \<longrightarrow> fst (get_existing_token name w) = Ret PNone)
      \<and> (name \<noteq> [] \<and> \<not> truthy realm \<longrightarrow> returns_falsy (fst (get_service_token name scope w)))
      \<and> (\<not> prompt \<or> truthy url \<or> truthy (dict_get (config_store w) ''url''))"
  let ?w1 = "after_misses name scope realm refresh w"
  let ?url1 = "if truthy url then url else dict_get (config_store ?w1) ''url''"
  from a have r: "get_named_token scope realm name user password url insecure refresh use_keyring prompt w
             = request_named_token scope realm name user password url insecure use_keyring prompt ?w1"
    by (intro get_named_token_reaches) simp_all
  from a have "\<not> prompt \<or> truthy ?url1"
    by (auto simp: after_misses_frame)
  then have "url_prompt_loop insecure prompt ?url1 (config_store ?w1) (emit EvLoadConfig ?w1)
               = (Ret (?url1, config_store ?w1), emit EvLoadConfig ?w1)"
    by (rule url_prompt_loop_skipped)
  from request_named_token_stores_config [OF this, of scope realm name user password use_keyring]
  obtain later where l: "trace (snd (request_named_token scope realm name user password url insecure
                                 use_keyring prompt ?w1))
                   = trace (emit EvLoadConfig ?w1) @ EvStoreConfig (config_store ?w1) # later"
    by blast
  from after_misses_trace [of name scope realm refresh w]
  obtain before where b: "trace ?w1 = trace w @ before"
      "set before \<subseteq> {EvReadTokens, EvManage name scope, EvServiceGet name}"
    by blast
  have "trace (snd (get_named_token scope realm name user password url insecure refresh
                           use_keyring prompt w))
               = trace w @ before @ EvLoadConfig # EvStoreConfig (config_store w) # later"
    unfolding r l by (simp add: emit_def b(1) after_misses_frame)
  with b(2) show "\<exists>before later.
             trace (snd (get_named_token scope realm name user password url insecure refresh
                           use_keyring prompt w))
               = trace w @ before @ EvLoadConfig # EvStoreConfig (config_store w) # later
           \<and> set before \<subseteq> {EvReadTokens, EvManage name scope, EvServiceGet name}"
    by blast
qed

text \<open>
  C9 with a URL given as an argument, where the empty configuration is stored again, and
  with a URL typed at the prompt.
\<close>

theorem configuration_always_stored_witness:
  "fst (get_existing_token ''mytoken'' (reply_world [Response 200 ''body'' (Some (PDict token_body))]))
     = Ret PNone
   \<and> truthy example_url
   \<and> (\<exists>before later.
         trace (snd (get_named_token [] PNone ''mytoken'' example_user example_password example_url
                       PNone False False False
                       (reply_world [Response 200 ''body'' (Some (PDict token_body))])))
           = before @ EvLoadConfig # EvStoreConfig [] # later
       \<and> set before \<subseteq> {EvReadTokens, EvManage ''mytoken'' [], EvServiceGet ''mytoken''})
   \<and> fst (url_prompt_loop PNone True PNone []
            (emit EvLoadConfig (after_misses ''mytoken'' [] PNone False asking_world)))
       = Ret (example_url, [(''url'', example_url)])
   \<and> (\<exists>later.
         trace (snd (get_named_token [] PNone ''mytoken'' example_user example_password PNone
                       PNone False False True asking_world))
           = [EvReadTokens, EvManage ''mytoken'' [], EvServiceGet ''mytoken'', EvLoadConfig,
              EvPrompt UrlPrompt, EvHttpGet example_url [] None True (Some 5),
              EvStoreConfig [(''url'', example_url)]] @ later)"
proof -
  let ?w = "reply_world [Response 200 ''body'' (Some (PDict token_body))]"
  let ?l = "url_prompt_loop PNone True PNone []
              (emit EvLoadConfig (after_misses ''mytoken'' [] PNone False asking_world))"
  have m: "fst (get_existing_token ''mytoken'' ?w) = Ret PNone"
          "returns_falsy (fst (get_service_token ''mytoken'' [] ?w))"
          "trace ?w = []" "config_store ?w = []"
    by (simp_all add: get_existing_token_def get_tokens_def is_valid_def time_time_def
          get_service_token_eq dict_get_def dict_get_default_def emit_def reply_world_def
          quiet_world_def)
  have n: "fst (get_existing_token ''mytoken'' asking_world) = Ret PNone"
          "returns_falsy (fst (get_service_token ''mytoken'' [] asking_world))"
          "config_store asking_world = []"
    by (simp_all add: get_existing_token_def get_tokens_def is_valid_def time_time_def
          get_service_token_eq dict_get_def dict_get_default_def emit_def asking_world_def
          reply_world_def quiet_world_def)
  have t: "truthy example_url"
    by (simp add: example_url_def)
  have lf: "fst ?l = Ret (example_url, [(''url'', example_url)])"
    by (simp add: url_prompt_loop.simps click_prompt_def requests_get_def emit_def
          after_misses_def asking_world_def reply_world_def quiet_world_def example_url_def
          dict_set_def)
  have lt: "trace (snd ?l)
              = [EvReadTokens, EvManage ''mytoken'' [], EvServiceGet ''mytoken'', EvLoadConfig,
                 EvPrompt UrlPrompt, EvHttpGet example_url [] None True (Some 5)]"
    by (simp add: url_prompt_loop.simps click_prompt_def requests_get_def emit_def
          after_misses_def asking_world_def reply_world_def quiet_world_def example_url_def
          dict_set_def)
  have l: "url_prompt_loop PNone True (if truthy PNone then PNone
                                       else dict_get (config_store asking_world) ''url'')
             (config_store asking_world)
             (emit EvLoadConfig (after_misses ''mytoken'' [] PNone False asking_world))
             = (Ret (example_url, [(''url'', example_url)]), snd ?l)"
    using lf by (simp add: prod_eq_iff n(3) dict_get_def dict_get_default_def)
  have a: "\<exists>before later.
         trace (snd (get_named_token [] PNone ''mytoken'' example_user example_password example_url
                       PNone False False False ?w))
           = trace ?w @ before @ EvLoadConfig # EvStoreConfig (config_store ?w) # later
       \<and> set before \<subseteq> {EvReadTokens, EvManage ''mytoken'' [], EvServiceGet ''mytoken''}"
    using configuration_always_stored [THEN conjunct2, THEN mp,
            of "''mytoken''" False ?w PNone "[]" False example_url example_user example_password
               PNone False]
          m(1,2) t
    by simp
  have b: "\<exists>later.
         trace (snd (get_named_token [] PNone ''mytoken'' example_user example_password PNone
                       PNone False False True asking_world))
           = trace (snd ?l) @ EvStoreConfig [(''url'', example_url)] # later"
    using configuration_always_stored [THEN conjunct1, THEN mp,
            of "''mytoken''" False asking_world PNone "[]" PNone True PNone example_url
               "[(''url'', example_url)]" "snd ?l" example_user example_password False]
          n(1,2) l
    by simp
  from a b m t lf show ?thesis
    by (simp add: lt)
qed

end
